theory Spec2Isabelle
  imports Complex_Main
begin

section \<open>Python values, exceptions and the interpreter state\<close>

text \<open>
  The repository consists of two notebooks. Their code cells are Python scripts that call
  boto3 clients and LangChain objects. The scripts are embedded as state-passing functions:
  the state holds what the interpreter shares between statements (\<open>os.environ\<close>,
  \<open>sys.stdout\<close>, the text written to each stream, the filters of the \<open>warnings\<close> module)
  and the log of requests that left the process. Exceptions are values of the type \<open>exn\<close>; a computation returns \<open>Inl e\<close> when it
  raises \<open>e\<close>.
\<close>

datatype exn =
    KeyError string
  | IndexError
  | TypeError
  | AttributeError
  | ValueError
  | JSONDecodeError
  | EntityAlreadyExistsException
  | ResourceAlreadyExistsException
  | ClientError string
  | ImportError string
  | NoRegionError
  | ProfileNotFound string
  | ValidationError
  | OtherError string

text \<open>
  Python values that travel in requests and responses. \<open>PBody\<close> is the streaming body of an
  \<open>invoke_model\<close> response: \<open>Some v\<close> when the bytes it yields are the JSON text of \<open>v\<close>,
  \<open>None\<close> when they are not JSON.
\<close>

datatype pyval =
    PNone
  | PBool bool
  | PInt int
  | PFloat real
  | PStr string
  | PList "pyval list"
  | PTuple "pyval list"
  | PSet "pyval list"
  | PDict "(string \<times> pyval) list"
  | PBody "pyval option"

type_synonym kwargs = "(string \<times> pyval) list"

abbreviation nl :: string where
  "nl \<equiv> [CHR 0x0A]"

record retries =
  max_attempts :: int
  mode :: string

text \<open>\<open>botocore.config.Config(region_name=..., retries=...)\<close>\<close>

record config =
  cfg_region_name :: "string option"
  cfg_retries :: "retries option"

text \<open>\<open>boto3.Session(**session_kwargs)\<close>; the default session has no keyword arguments.\<close>

record session =
  ses_kwargs :: kwargs

text \<open>
  \<open>session.client(service_name=..., config=..., **client_kwargs)\<close>. Building a client
  sends no request; the client is the record of what it was built from. Whether a client,
  a session or a LangChain object can be built, and whether a module can be imported, is
  decided by the installation and the local configuration: see \<open>world\<close> below.
\<close>

record client =
  c_session :: session
  c_service :: string
  c_config :: "config option"
  c_kwargs :: kwargs

text \<open>A LangChain document: \<open>page_content\<close> and \<open>metadata\<close>.\<close>

record document =
  page_content :: string
  metadata :: kwargs

text \<open>\<open>Bedrock(model_id=..., client=..., model_kwargs=...)\<close>\<close>

record bedrock_llm =
  llm_model_id :: string
  llm_client :: client
  llm_model_kwargs :: kwargs

text \<open>\<open>BedrockEmbeddings(model_id=..., client=...)\<close>\<close>

record bedrock_embeddings =
  emb_model_id :: string
  emb_client :: client

text \<open>\<open>PGVector\<close> store handle: collection name and connection string.\<close>

record pgvector =
  collection_name :: string
  connection_string :: string
  embedding_function :: bedrock_embeddings

text \<open>
  \<open>ChatBedrockConverse(...)\<close> and \<open>ChatBedrock(...)\<close>: the class name, the keyword
  arguments other than the client, and the client.
\<close>

record chat_model =
  chat_class :: string
  chat_kwargs :: kwargs
  chat_client :: client

text \<open>\<open>PromptTemplate(template=..., input_variables=...)\<close>\<close>

record langchain_prompt =
  pt_template :: string
  pt_input_variables :: "string list"

text \<open>\<open>db.as_retriever(search_type=..., search_kwargs=...)\<close>\<close>

record retriever =
  r_store :: pgvector
  r_search_type :: string
  r_search_kwargs :: kwargs

text \<open>
  \<open>RetrievalQA.from_chain_type(llm=..., chain_type=..., retriever=...,
  return_source_documents=..., chain_type_kwargs={"prompt": ...})\<close>
\<close>

record retrieval_qa =
  qa_llm :: bedrock_llm
  qa_chain_type :: string
  qa_retriever :: retriever
  qa_return_source_documents :: bool
  qa_prompt :: langchain_prompt

text \<open>
  The dict that a call of the chain returns: the values under the keys \<open>result\<close> and
  \<open>source_documents\<close>, \<open>None\<close> for a key that the dict does not have.
\<close>

record qa_answer =
  ans_result :: "string option"
  ans_source_documents :: "document list option"

text \<open>
  Every call that leaves the notebook's own code for a service or for a LangChain object
  that reaches one is logged, with its outcome: a request of a boto3 client (operation name
  and keyword arguments), \<open>llm.invoke(messages)\<close> of a chat model, \<open>loader.load()\<close>,
  \<open>PGVector.from_documents(...)\<close>, and the call \<open>qa({"query": ...})\<close> of a retrieval chain.
  What a LangChain object does inside such a call is the library's business and is not
  part of the notebooks; the call is one event.
\<close>

datatype request =
    Api client string kwargs
  | ChatInvoke chat_model pyval
  | LoadDirectory string
  | FromDocuments bedrock_embeddings "document list" string string
  | CallChain retrieval_qa string

datatype answer =
    Value pyval
  | Documents "document list"
  | Answer qa_answer
  | Done

type_synonym event = "request \<times> (exn + answer)"

datatype stream = Std nat | StringIO nat

text \<open>
  \<open>filters\<close> is the list of actions of \<open>warnings.filters\<close>, the newest in front; it is shared
  by the whole process, as \<open>os.environ\<close> and \<open>sys.stdout\<close> are.
\<close>

record pystate =
  environ :: "string \<rightharpoonup> string"
  sys_stdout :: stream
  filters :: "string list"
  written :: "stream \<Rightarrow> string"
  allocated :: nat
  ticks :: nat
  trace :: "event list"

text \<open>
  The outside world answers each request. The first argument is the number of requests made
  so far, so that the same request may be answered differently at different times.
  \<open>clock\<close> is what the n-th call of \<open>time()\<close> returns.
  The world also holds what is installed and configured on the machine:
  \<open>import_module\<close> is the exception that importing a module raises, \<open>build_session\<close> the one
  that \<open>boto3.Session(**kwargs)\<close> raises (\<open>ProfileNotFound\<close>, for one), \<open>build_client\<close> the
  one that \<open>session.client(...)\<close> raises (\<open>NoRegionError\<close>, for one), and \<open>build_object\<close>
  the one that the constructor of a LangChain class raises for its keyword arguments;
  \<open>None\<close> when there is none.
\<close>

record world =
  respond :: "nat \<Rightarrow> client \<Rightarrow> string \<Rightarrow> kwargs \<Rightarrow> exn + pyval"
  chat_invoke :: "nat \<Rightarrow> chat_model \<Rightarrow> pyval \<Rightarrow> exn + pyval"
  load_directory :: "nat \<Rightarrow> string \<Rightarrow> exn + document list"
  store_documents ::
    "nat \<Rightarrow> bedrock_embeddings \<Rightarrow> document list \<Rightarrow> string \<Rightarrow> string \<Rightarrow> exn + unit"
  call_chain :: "nat \<Rightarrow> retrieval_qa \<Rightarrow> string \<Rightarrow> exn + qa_answer"
  clock :: "nat \<Rightarrow> real"
  import_module :: "string \<Rightarrow> exn option"
  build_session :: "kwargs \<Rightarrow> exn option"
  build_client :: "session \<Rightarrow> string \<Rightarrow> config option \<Rightarrow> kwargs \<Rightarrow> exn option"
  build_object :: "string \<Rightarrow> kwargs \<Rightarrow> exn option"

text \<open>
  Functions of the Python standard library and of the client libraries that format text.
  They are pure and are taken as parameters.
\<close>

record pylib =
  splitlines :: "string \<Rightarrow> string list"
  wrap :: "string \<Rightarrow> int \<Rightarrow> exn + string list"
  py_str :: "pyval \<Rightarrow> string"
  client_str :: "client \<Rightarrow> string"
  endpoint_str :: "client \<Rightarrow> string"
  boto3_version :: string
  json_dumps :: "pyval \<Rightarrow> string"
  split_documents :: "nat \<Rightarrow> nat \<Rightarrow> document list \<Rightarrow> document list"
  connection_string_from_db_params ::
    "string option \<Rightarrow> string option \<Rightarrow> string option \<Rightarrow> string option \<Rightarrow>
     string option \<Rightarrow> string option \<Rightarrow> string"

subsection \<open>Sequencing, raising and handling\<close>

type_synonym 'a py = "pystate \<Rightarrow> (exn + 'a) \<times> pystate"

definition ret :: "'a \<Rightarrow> 'a py" where
  "ret x s = (Inr x, s)"

definition raise :: "exn \<Rightarrow> 'a py" where
  "raise e s = (Inl e, s)"

definition py_bind :: "'a py \<Rightarrow> ('a \<Rightarrow> 'b py) \<Rightarrow> 'b py" where
  "py_bind m f s = (case m s of (Inl e, s') \<Rightarrow> (Inl e, s') | (Inr x, s') \<Rightarrow> f x s')"

definition py_seq :: "unit py \<Rightarrow> 'b py \<Rightarrow> 'b py" where
  "py_seq m k = py_bind m (\<lambda>_. k)"

definition lift :: "exn + 'a \<Rightarrow> 'a py" where
  "lift r s = (r, s)"

text \<open>
  \<open>try: body finally: fin\<close>. The final block runs on both exits; when it completes, the
  outcome of the body stands (its value, or its exception, which propagates).
\<close>

definition try_finally :: "'a py \<Rightarrow> unit py \<Rightarrow> 'a py" where
  "try_finally body fin s =
     (case body s of (r, s') \<Rightarrow>
        (case fin s' of (Inl e, s'') \<Rightarrow> (Inl e, s'') | (Inr _, s'') \<Rightarrow> (r, s'')))"

text \<open>\<open>try: body except E: pass\<close> for one exception class \<open>E\<close>.\<close>

definition try_except_pass :: "unit py \<Rightarrow> exn \<Rightarrow> unit py" where
  "try_except_pass body E s =
     (case body s of
        (Inl e, s') \<Rightarrow> if e = E then (Inr (), s') else (Inl e, s')
      | (Inr x, s') \<Rightarrow> (Inr x, s'))"

text \<open>
  A step that sends nothing and may raise: \<open>None\<close> lets the run go on, \<open>Some e\<close> raises \<open>e\<close>.
  Imports run in the order in which they are written; the first that fails raises.
\<close>

definition attempt :: "exn option \<Rightarrow> unit py" where
  "attempt x = lift (case x of None \<Rightarrow> Inr () | Some e \<Rightarrow> Inl e)"

fun first_failure :: "exn option list \<Rightarrow> exn option" where
  "first_failure [] = None"
| "first_failure (None # xs) = first_failure xs"
| "first_failure (Some e # xs) = Some e"

definition py_import :: "world \<Rightarrow> string list \<Rightarrow> unit py" where
  "py_import w modules = attempt (first_failure (map (import_module w) modules))"

text \<open>
  The constructor of a LangChain class. Whether it raises is decided from the name of the
  class and the keyword arguments that are plain values; a client or another object
  among the arguments is kept in the object that is built.
\<close>

definition construct :: "world \<Rightarrow> string \<Rightarrow> kwargs \<Rightarrow> unit py" where
  "construct w class_name kw = attempt (build_object w class_name kw)"

text \<open>\<open>warnings.filterwarnings(action)\<close> puts a filter in front of the process-wide list.\<close>

definition filterwarnings :: "string \<Rightarrow> unit py" where
  "filterwarnings action s = (Inr (), s\<lparr>filters := action # filters s\<rparr>)"

definition get_environ :: "(string \<rightharpoonup> string) py" where
  "get_environ s = (Inr (environ s), s)"

definition set_environ :: "string \<Rightarrow> string \<Rightarrow> unit py" where
  "set_environ k v s = (Inr (), s\<lparr>environ := (environ s)(k \<mapsto> v)\<rparr>)"

definition get_stdout :: "stream py" where
  "get_stdout s = (Inr (sys_stdout s), s)"

definition set_stdout :: "stream \<Rightarrow> unit py" where
  "set_stdout f s = (Inr (), s\<lparr>sys_stdout := f\<rparr>)"

text \<open>\<open>StringIO()\<close> creates a new, empty stream.\<close>

definition new_StringIO :: "stream py" where
  "new_StringIO s =
     (Inr (StringIO (allocated s)),
      s\<lparr>allocated := Suc (allocated s),
        written := (written s)(StringIO (allocated s) := [])\<rparr>)"

definition getvalue :: "stream \<Rightarrow> string py" where
  "getvalue f s = (Inr (written s f), s)"

definition write_to :: "stream \<Rightarrow> string \<Rightarrow> unit py" where
  "write_to f t s = (Inr (), s\<lparr>written := (written s)(f := written s f @ t)\<rparr>)"

subsection \<open>The built-in print\<close>

text \<open>
  \<open>print(*args, sep=' ', end='\n', file=None, flush=False)\<close>. An argument is given by
  what \<open>str()\<close> makes of it: a text, or an exception. The arguments are written one at a
  time, so the text of the arguments before a failing one has been written when the
  exception leaves. A keyword that print does not know raises TypeError before anything is
  written.
\<close>

record print_kwargs =
  kw_sep :: "string option"
  kw_end :: "string option"
  kw_file :: "stream option"
  kw_flush :: bool
  kw_unknown :: "string list"

definition no_kwargs :: print_kwargs where
  "no_kwargs = \<lparr>kw_sep = None, kw_end = None, kw_file = None, kw_flush = False, kw_unknown = []\<rparr>"

fun print_args :: "stream \<Rightarrow> string \<Rightarrow> bool \<Rightarrow> (exn + string) list \<Rightarrow> unit py" where
  "print_args f sep first [] = ret ()"
| "print_args f sep first (a # as) =
     py_seq (if first then ret () else write_to f sep)
       (py_bind (lift a) (\<lambda>t.
        py_seq (write_to f t)
          (print_args f sep False as)))"

definition py_print :: "(exn + string) list \<Rightarrow> print_kwargs \<Rightarrow> unit py" where
  "py_print args kw =
     (if kw_unknown kw \<noteq> [] then raise TypeError
      else py_bind get_stdout (\<lambda>out.
        let f = (case kw_file kw of None \<Rightarrow> out | Some g \<Rightarrow> g);
            sep = (case kw_sep kw of None \<Rightarrow> '' '' | Some t \<Rightarrow> t);
            en = (case kw_end kw of None \<Rightarrow> nl | Some t \<Rightarrow> t)
        in py_seq (print_args f sep True args) (write_to f en)))"

text \<open>\<open>print(text)\<close> with one string argument and no keyword.\<close>

definition print1 :: "string \<Rightarrow> unit py" where
  "print1 t = py_print [Inr t] no_kwargs"

fun join :: "string \<Rightarrow> string list \<Rightarrow> string" where
  "join sep [] = []"
| "join sep [x] = x"
| "join sep (x # y # ys) = x @ sep @ join sep (y # ys)"

section \<open>The helper functions of the cross-region notebook\<close>

subsection \<open>\<open>print_ww\<close>\<close>

text \<open>
  \<^verbatim>\<open>
  def print_ww(*args, width: int = 100, **kwargs):
      buffer = StringIO()
      try:
          _stdout = sys.stdout
          sys.stdout = buffer
          print(*args, **kwargs)
          output = buffer.getvalue()
      finally:
          sys.stdout = _stdout
      for line in output.splitlines():
          print("\n".join(textwrap.wrap(line, width=width)))
  \<close>
  Reading \<open>sys.stdout\<close> into \<open>_stdout\<close> does not raise, so the binding of \<open>_stdout\<close> is
  written in front of the \<open>try\<close>, where the final block can see it (as \<open>saved\<close>).
\<close>

fun print_wrapped :: "pylib \<Rightarrow> int \<Rightarrow> string list \<Rightarrow> unit py" where
  "print_wrapped lib width [] = ret ()"
| "print_wrapped lib width (line # rest) =
     py_bind (lift (wrap lib line width)) (\<lambda>ws.
     py_seq (print1 (join nl ws))
       (print_wrapped lib width rest))"

definition print_ww :: "pylib \<Rightarrow> (exn + string) list \<Rightarrow> int \<Rightarrow> print_kwargs \<Rightarrow> unit py" where
  "print_ww lib args width kwargs =
     py_bind new_StringIO (\<lambda>buffer.
     py_bind get_stdout (\<lambda>saved.
     py_bind
       (try_finally
          (py_seq (set_stdout buffer)
          (py_seq (py_print args kwargs)
            (getvalue buffer)))
          (set_stdout saved)) (\<lambda>output.
     print_wrapped lib width (splitlines lib output))))"

subsection \<open>Requests, subscripts and formatting\<close>

text \<open>
  A request of a boto3 client: the world answers, and the request is logged with its
  outcome. An error response is the exception that boto3 raises.
\<close>

definition logged :: "request \<Rightarrow> ('a \<Rightarrow> answer) \<Rightarrow> exn + 'a \<Rightarrow> 'a py" where
  "logged rq tag r s = (r, s\<lparr>trace := trace s @ [(rq, map_sum id tag r)]\<rparr>)"

definition api :: "world \<Rightarrow> client \<Rightarrow> string \<Rightarrow> kwargs \<Rightarrow> pyval py" where
  "api w c operation args s =
     logged (Api c operation args) Value (respond w (length (trace s)) c operation args) s"

text \<open>\<open>d[key]\<close> with a string key\<close>

fun subscript :: "pyval \<Rightarrow> string \<Rightarrow> exn + pyval" where
  "subscript (PDict kvs) key =
     (case map_of kvs key of None \<Rightarrow> Inl (KeyError key) | Some v \<Rightarrow> Inr v)"
| "subscript _ key = Inl TypeError"

text \<open>\<open>d[k1][k2]...\<close>, from left to right\<close>

fun subscripts :: "pyval \<Rightarrow> string list \<Rightarrow> exn + pyval" where
  "subscripts v [] = Inr v"
| "subscripts v (k # ks) = (case subscript v k of Inl e \<Rightarrow> Inl e | Inr u \<Rightarrow> subscripts u ks)"

text \<open>\<open>v[0]\<close>\<close>

fun first_item :: "pyval \<Rightarrow> exn + pyval" where
  "first_item (PList []) = Inl IndexError"
| "first_item (PList (x # xs)) = Inr x"
| "first_item (PStr []) = Inl IndexError"
| "first_item (PStr (c # cs)) = Inr (PStr [c])"
| "first_item (PDict kvs) = Inl (KeyError ''0'')"
| "first_item _ = Inl TypeError"

text \<open>\<open>d.get(key)\<close>\<close>

fun dict_get :: "pyval \<Rightarrow> string \<Rightarrow> exn + pyval" where
  "dict_get (PDict kvs) key = (case map_of kvs key of None \<Rightarrow> Inr PNone | Some v \<Rightarrow> Inr v)"
| "dict_get _ key = Inl AttributeError"

text \<open>\<open>json.loads(body.read())\<close>\<close>

fun read_json :: "pyval \<Rightarrow> exn + pyval" where
  "read_json (PBody None) = Inl JSONDecodeError"
| "read_json (PBody (Some v)) = Inr v"
| "read_json _ = Inl AttributeError"

text \<open>An \<open>Optional[str]\<close> inside an f-string or under \<open>str()\<close>, and as a value.\<close>

fun fmt :: "string option \<Rightarrow> string" where
  "fmt None = ''None''"
| "fmt (Some t) = t"

fun opt_str :: "string option \<Rightarrow> pyval" where
  "opt_str None = PNone"
| "opt_str (Some t) = PStr t"

text \<open>Truth value of an \<open>Optional[str]\<close>: \<open>None\<close> and the empty string are false.\<close>

fun truthy :: "string option \<Rightarrow> bool" where
  "truthy None = False"
| "truthy (Some t) = (t \<noteq> [])"

subsection \<open>\<open>get_bedrock_client\<close>\<close>

text \<open>
  \<^verbatim>\<open>
  def get_bedrock_client(assumed_role=None, region=None, runtime=True, service_name=None):
      if region is None:
          target_region = os.environ.get("AWS_REGION", os.environ.get("AWS_DEFAULT_REGION"))
      else:
          target_region = region
      print(f"Create new client\n  Using region: {target_region}")
      session_kwargs = {"region_name": target_region}
      client_kwargs = {**session_kwargs}
      profile_name = os.environ.get("AWS_PROFILE")
      if profile_name:
          print(f"  Using profile: {profile_name}")
          session_kwargs["profile_name"] = profile_name
      retry_config = Config(region_name=target_region,
                            retries={"max_attempts": 10, "mode": "standard"})
      session = boto3.Session(**session_kwargs)
      if assumed_role:
          print(f"  Using role: {assumed_role}", end='')
          sts = session.client("sts")
          response = sts.assume_role(RoleArn=str(assumed_role),
                                     RoleSessionName="langchain-llm-1")
          print(" ... successful!")
          client_kwargs["aws_access_key_id"] = response["Credentials"]["AccessKeyId"]
          client_kwargs["aws_secret_access_key"] = response["Credentials"]["SecretAccessKey"]
          client_kwargs["aws_session_token"] = response["Credentials"]["SessionToken"]
      if not service_name:
          if runtime:
              service_name='bedrock-runtime'
          else:
              service_name='bedrock'
      bedrock_client = session.client(service_name=service_name, config=retry_config,
                                      **client_kwargs)
      print("boto3 Bedrock client successfully created!")
      print(bedrock_client._endpoint)
      return bedrock_client
  \<close>
  \<open>runtime\<close> is an \<open>Optional[bool]\<close>: \<open>None\<close> counts as false.
\<close>

text \<open>
  \<open>boto3.Session(**kwargs)\<close> and \<open>session.client(service_name, config=..., **kwargs)\<close>: each
  either raises or returns the object built from its arguments.
\<close>

definition new_session :: "world \<Rightarrow> kwargs \<Rightarrow> session py" where
  "new_session w kw = py_seq (attempt (build_session w kw)) (ret \<lparr>ses_kwargs = kw\<rparr>)"

definition session_client ::
  "world \<Rightarrow> session \<Rightarrow> string \<Rightarrow> config option \<Rightarrow> kwargs \<Rightarrow> client py" where
  "session_client w ses service cfg kw =
     py_seq (attempt (build_client w ses service cfg kw))
       (ret \<lparr>c_session = ses, c_service = service, c_config = cfg, c_kwargs = kw\<rparr>)"

definition resolve_region :: "(string \<rightharpoonup> string) \<Rightarrow> string option \<Rightarrow> string option" where
  "resolve_region env region =
     (if region = None
      then (case env ''AWS_REGION'' of Some r \<Rightarrow> Some r | None \<Rightarrow> env ''AWS_DEFAULT_REGION'')
      else region)"

definition resolve_service :: "bool option \<Rightarrow> string option \<Rightarrow> string" where
  "resolve_service runtime service_name =
     (case service_name of
        Some (c # cs) \<Rightarrow> c # cs
      | _ \<Rightarrow> if runtime = Some True then ''bedrock-runtime'' else ''bedrock'')"

definition assume_role_kwargs :: "world \<Rightarrow> session \<Rightarrow> string option \<Rightarrow> kwargs \<Rightarrow> kwargs py" where
  "assume_role_kwargs w ses assumed_role client_kwargs =
     (if truthy assumed_role then
        py_seq (py_print [Inr (''  Using role: '' @ fmt assumed_role)]
                  (no_kwargs\<lparr>kw_end := Some []\<rparr>))
        (py_bind (session_client w ses ''sts'' None []) (\<lambda>sts.
         py_bind (api w sts ''assume_role''
                    [(''RoleArn'', PStr (fmt assumed_role)),
                     (''RoleSessionName'', PStr ''langchain-llm-1'')]) (\<lambda>response.
         py_seq (print1 '' ... successful!'')
        (py_bind (lift (subscripts response [''Credentials'', ''AccessKeyId''])) (\<lambda>key_id.
         py_bind (lift (subscripts response [''Credentials'', ''SecretAccessKey''])) (\<lambda>secret.
         py_bind (lift (subscripts response [''Credentials'', ''SessionToken''])) (\<lambda>token.
         ret (client_kwargs @
                [(''aws_access_key_id'', key_id),
                 (''aws_secret_access_key'', secret),
                 (''aws_session_token'', token)]))))))))
      else ret client_kwargs)"

definition get_bedrock_client ::
  "pylib \<Rightarrow> world \<Rightarrow> string option \<Rightarrow> string option \<Rightarrow> bool option \<Rightarrow> string option \<Rightarrow> client py"
where
  "get_bedrock_client lib w assumed_role region runtime service_name =
     py_bind get_environ (\<lambda>env.
     let target_region = resolve_region env region in
     py_seq (print1 (''Create new client'' @ nl @ ''  Using region: '' @ fmt target_region))
     (let client_kwargs = [(''region_name'', opt_str target_region)];
          profile_name = env ''AWS_PROFILE'' in
      py_bind
        (if truthy profile_name then
           py_seq (print1 (''  Using profile: '' @ fmt profile_name))
             (ret [(''region_name'', opt_str target_region),
                   (''profile_name'', opt_str profile_name)])
         else ret [(''region_name'', opt_str target_region)]) (\<lambda>session_kwargs.
      let retry_config = \<lparr>cfg_region_name = target_region,
                          cfg_retries = Some \<lparr>max_attempts = 10, mode = ''standard''\<rparr>\<rparr> in
      py_bind (new_session w session_kwargs) (\<lambda>ses.
      py_bind (assume_role_kwargs w ses assumed_role client_kwargs) (\<lambda>client_kwargs.
      py_bind (session_client w ses (resolve_service runtime service_name)
                 (Some retry_config) client_kwargs) (\<lambda>bedrock_client.
      py_seq (print1 ''boto3 Bedrock client successfully created!'')
     (py_seq (print1 (endpoint_str lib bedrock_client))
        (ret bedrock_client))))))))"

text \<open>
  \<open>boto3.client(service, **kw)\<close> builds a client of the default session, with no
  configuration; \<open>default_client service kw\<close> is the client that it returns when it
  returns one.
\<close>

definition default_client :: "string \<Rightarrow> kwargs \<Rightarrow> client" where
  "default_client service kw =
     \<lparr>c_session = \<lparr>ses_kwargs = []\<rparr>, c_service = service,
      c_config = None, c_kwargs = kw\<rparr>"

definition boto3_client :: "world \<Rightarrow> string \<Rightarrow> kwargs \<Rightarrow> client py" where
  "boto3_client w service kw = session_client w \<lparr>ses_kwargs = []\<rparr> service None kw"

text \<open>A value inside an f-string or as the argument of print: a \<open>str\<close> stands for itself.\<close>

definition format_value :: "pylib \<Rightarrow> pyval \<Rightarrow> string" where
  "format_value lib v = (case v of PStr t \<Rightarrow> t | _ \<Rightarrow> py_str lib v)"

text \<open>\<open>time()\<close> reads the clock; \<open>int(x)\<close> of a float truncates towards zero.\<close>

definition py_time :: "world \<Rightarrow> real py" where
  "py_time w s = (Inr (clock w (ticks s)), s\<lparr>ticks := Suc (ticks s)\<rparr>)"

definition py_int :: "real \<Rightarrow> int" where
  "py_int x = (if 0 \<le> x then \<lfloor>x\<rfloor> else \<lceil>x\<rceil>)"

text \<open>A dict display: a key that is written twice keeps its first position and its last value.\<close>

fun dict_set :: "string \<Rightarrow> pyval \<Rightarrow> kwargs \<Rightarrow> kwargs" where
  "dict_set k v [] = [(k, v)]"
| "dict_set k v ((k', v') # d) = (if k = k' then (k, v) # d else (k', v') # dict_set k v d)"

definition dict_literal :: "kwargs \<Rightarrow> pyval" where
  "dict_literal kvs = PDict (foldl (\<lambda>d (k, v). dict_set k v d) [] kvs)"

abbreviation dq :: string where
  "dq \<equiv> [CHR 0x22]"

section \<open>The cross-region inference notebook\<close>

text \<open>
  The code cells in their order; a cell is named by its position among all cells of the
  notebook (markdown cells included, the first cell being cell 0). Cells that only install
  packages are not Python statements and are left out.
  The value that Jupyter displays for the last expression of a cell is not printed through
  \<open>sys.stdout\<close> and is not modelled. An exception that leaves a cell stops the run.
\<close>

text \<open>
  Cell 3, in front of the two function definitions:
  \<^verbatim>\<open>
  import warnings
  from io import StringIO
  import sys
  import textwrap
  import os
  from typing import Optional
  import boto3
  from botocore.config import Config
  warnings.filterwarnings('ignore')
  \<close>
\<close>

definition cell3 :: "world \<Rightarrow> unit py" where
  "cell3 w =
     py_seq (py_import w [''warnings'', ''io'', ''sys'', ''textwrap'', ''os'', ''typing'',
                          ''boto3'', ''botocore.config''])
       (filterwarnings ''ignore'')"

definition region_name :: string where
  "region_name = ''us-east-1''"

text \<open>
  \<^verbatim>\<open>
  profile_names = ['default', 'profile_acct_4' ]
  os.environ["AWS_PROFILE"] = 'profile_acct_4'
  boto3_client =  get_bedrock_client(region='us-east-1', runtime=False)
  boto3_client.list_foundation_models()
  \<close>
\<close>

definition cell4 :: "pylib \<Rightarrow> world \<Rightarrow> unit py" where
  "cell4 lib w =
     py_seq (set_environ ''AWS_PROFILE'' ''profile_acct_4'')
    (py_bind (get_bedrock_client lib w None (Some ''us-east-1'') (Some False) None) (\<lambda>boto3_client.
     py_bind (api w boto3_client ''list_foundation_models'' []) (\<lambda>_.
     ret ())))"

text \<open>
  \<^verbatim>\<open>
  import boto3
  print(boto3.__version__)
  \<close>
\<close>

definition cell5 :: "pylib \<Rightarrow> world \<Rightarrow> unit py" where
  "cell5 lib w = py_seq (py_import w [''boto3'']) (print1 (boto3_version lib))"

text \<open>
  \<^verbatim>\<open>
  profile_names = ['default', 'profile_acct_4' ]
  os.environ["AWS_PROFILE"] = 'profile_acct_4'
  region_name = 'us-east-1'
  account_id = get_bedrock_client(service_name='sts', region=region_name).get_caller_identity().get('Account')
  bedrock_client = get_bedrock_client(service_name='bedrock', region=region_name)
  bedrock_runtime = get_bedrock_client(service_name='bedrock-runtime', region=region_name)
  print(account_id, bedrock_client, bedrock_client)
  \<close>
  The cell leaves \<open>account_id\<close>, \<open>bedrock_client\<close> and \<open>bedrock_runtime\<close> to the later cells.
\<close>

definition cell7 :: "pylib \<Rightarrow> world \<Rightarrow> (pyval \<times> client \<times> client) py" where
  "cell7 lib w =
     py_seq (set_environ ''AWS_PROFILE'' ''profile_acct_4'')
    (py_bind (get_bedrock_client lib w None (Some region_name) (Some True) (Some ''sts'')) (\<lambda>sts.
     py_bind (api w sts ''get_caller_identity'' []) (\<lambda>identity.
     py_bind (lift (dict_get identity ''Account'')) (\<lambda>account_id.
     py_bind (get_bedrock_client lib w None (Some region_name) (Some True) (Some ''bedrock'')) (\<lambda>bedrock_client.
     py_bind (get_bedrock_client lib w None (Some region_name) (Some True) (Some ''bedrock-runtime'')) (\<lambda>bedrock_runtime.
     py_seq (py_print [Inr (format_value lib account_id),
                       Inr (client_str lib bedrock_client),
                       Inr (client_str lib bedrock_client)] no_kwargs)
       (ret (account_id, bedrock_client, bedrock_runtime))))))))"

text \<open>\<^verbatim>\<open>bedrock_client.list_inference_profiles()['inferenceProfileSummaries']\<close>\<close>

definition cell9 :: "world \<Rightarrow> client \<Rightarrow> unit py" where
  "cell9 w bedrock_client =
     py_bind (api w bedrock_client ''list_inference_profiles'' []) (\<lambda>response.
     py_bind (lift (subscript response ''inferenceProfileSummaries'')) (\<lambda>_.
     ret ()))"

text \<open>
  \<^verbatim>\<open>
  bedrock_client.get_inference_profile(
      inferenceProfileIdentifier='us.anthropic.claude-3-5-sonnet-20240620-v1:0')
  \<close>
\<close>

definition cell11 :: "world \<Rightarrow> client \<Rightarrow> unit py" where
  "cell11 w bedrock_client =
     py_bind (api w bedrock_client ''get_inference_profile''
                [(''inferenceProfileIdentifier'',
                  PStr ''us.anthropic.claude-3-5-sonnet-20240620-v1:0'')]) (\<lambda>_.
     ret ())"

text \<open>
  \<^verbatim>\<open>
  from time import time
  system_prompt = "You are an expert on AWS services and always provide correct and concise answers."
  input_message = "Should I be storing documents in Amazon S3 or EFS for cost effective applications?"
  modelId = ('Foundation Model', 'anthropic.claude-3-haiku-20240307-v1:0')
  inferenceProfileId = ('Inference Profile', 'us.anthropic.claude-3-haiku-20240307-v1:0')

  for inference_type, id in [modelId, inferenceProfileId]:
      start = time()
      response = bedrock_runtime.converse(
          modelId=id,
          system=[{"text": system_prompt}],
          messages=[{"role": "user", "content": [{"text": input_message}]}])
      end = time()
      print(f"::{inference_type}::Response time: {int(end-start)} second(s)")
      print(f"::model:id:{id}::Response time: {int(end-start)} second(s)")
      print(f"::{inference_type}::Response output: {response['output']['message']['content']}")
  \<close>
\<close>

definition system_prompt :: string where
  "system_prompt =
     ''You are an expert on AWS services and always provide correct and concise answers.''"

definition input_message :: string where
  "input_message =
     ''Should I be storing documents in Amazon S3 or EFS for cost effective applications?''"

definition converse_kwargs :: "string \<Rightarrow> kwargs" where
  "converse_kwargs model_id =
     [(''modelId'', PStr model_id),
      (''system'', PList [PDict [(''text'', PStr system_prompt)]]),
      (''messages'',
         PList [PDict [(''role'', PStr ''user''),
                       (''content'', PList [PDict [(''text'', PStr input_message)]])]])]"

definition converse :: "world \<Rightarrow> client \<Rightarrow> string \<Rightarrow> pyval py" where
  "converse w bedrock_runtime model_id =
     api w bedrock_runtime ''converse'' (converse_kwargs model_id)"

fun converse_loop :: "pylib \<Rightarrow> world \<Rightarrow> client \<Rightarrow> (string \<times> string) list \<Rightarrow> unit py" where
  "converse_loop lib w bedrock_runtime [] = ret ()"
| "converse_loop lib w bedrock_runtime ((inference_type, model_id) # rest) =
     py_bind (py_time w) (\<lambda>start.
     py_bind (converse w bedrock_runtime model_id) (\<lambda>response.
     py_bind (py_time w) (\<lambda>stop.
     py_seq (print1 (''::'' @ inference_type @ ''::Response time: ''
                     @ py_str lib (PInt (py_int (stop - start))) @ '' second(s)''))
    (py_seq (print1 (''::model:id:'' @ model_id @ ''::Response time: ''
                     @ py_str lib (PInt (py_int (stop - start))) @ '' second(s)''))
    (py_bind (lift (subscripts response [''output'', ''message'', ''content''])) (\<lambda>content.
     py_seq (print1 (''::'' @ inference_type @ ''::Response output: ''
                     @ format_value lib content))
       (converse_loop lib w bedrock_runtime rest)))))))"

definition cell15 :: "pylib \<Rightarrow> world \<Rightarrow> client \<Rightarrow> unit py" where
  "cell15 lib w bedrock_runtime =
     py_seq (py_import w [''time''])
       (converse_loop lib w bedrock_runtime
          [(''Foundation Model'', ''anthropic.claude-3-haiku-20240307-v1:0''),
           (''Inference Profile'', ''us.anthropic.claude-3-haiku-20240307-v1:0'')])"

text \<open>
  \<^verbatim>\<open>
  inference_profile_id = "us.anthropic.claude-3-sonnet-20240229-v1:0"
  inference_profile_arn = f"arn:aws:bedrock:{region_name}:{account_id}:inference-profile/{inference_profile_id}"
  print(inference_profile_arn)

  response = bedrock_runtime.converse(
      modelId=inference_profile_arn,
      system=[{"text": system_prompt}],
      messages=[{"role": "user", "content": [{"text": input_message}]}])
  print(response['output']['message']['content'][0]['text'])
  \<close>
\<close>

definition inference_profile_arn :: "pylib \<Rightarrow> pyval \<Rightarrow> string" where
  "inference_profile_arn lib account_id =
     ''arn:aws:bedrock:'' @ region_name @ '':'' @ format_value lib account_id
     @ '':inference-profile/'' @ ''us.anthropic.claude-3-sonnet-20240229-v1:0''"

definition cell17 :: "pylib \<Rightarrow> world \<Rightarrow> pyval \<Rightarrow> client \<Rightarrow> unit py" where
  "cell17 lib w account_id bedrock_runtime =
     py_seq (print1 (inference_profile_arn lib account_id))
    (py_bind (converse w bedrock_runtime (inference_profile_arn lib account_id)) (\<lambda>response.
     py_bind (lift (subscripts response [''output'', ''message'', ''content''])) (\<lambda>content.
     py_bind (lift (first_item content)) (\<lambda>block.
     py_bind (lift (subscript block ''text'')) (\<lambda>text.
     print1 (format_value lib text))))))"

text \<open>
  \<^verbatim>\<open>
  import json
  body = json.dumps({
      "anthropic_version": "bedrock-2023-05-31",
      "max_tokens": 1024,
      "temperature": 0.1,
      "top_p": 0.9,
      "system": system_prompt,
      "messages": [{"role": "user",
                    "content": [{"type": "text", "text": f"{input_message}"}]}]
  })
  accept = 'application/json'
  contentType = 'application/json'
  modelId = ('Foundation Model', 'anthropic.claude-3-sonnet-20240229-v1:0')
  inferenceProfileId = ('Inference Profile', 'us.anthropic.claude-3-sonnet-20240229-v1:0')
  for inference_type, id in [modelId, inferenceProfileId]:
      start = time()
      response = bedrock_runtime.invoke_model(body=body, modelId=id, accept=accept, contentType=contentType)
      end = time()
      response_body = json.loads(response.get('body').read())
      print(f"::{inference_type}::Response time: {int(end-start)} second(s)")
      print(f"::{inference_type}::Response output: {response_body['content'][0]['text']}")
  \<close>
\<close>

definition anthropic_body :: "string \<Rightarrow> string \<Rightarrow> pyval" where
  "anthropic_body system user_text =
     PDict [(''anthropic_version'', PStr ''bedrock-2023-05-31''),
            (''max_tokens'', PInt 1024),
            (''temperature'', PFloat 0.1),
            (''top_p'', PFloat 0.9),
            (''system'', PStr system),
            (''messages'',
               PList [PDict [(''role'', PStr ''user''),
                             (''content'',
                                PList [PDict [(''type'', PStr ''text''),
                                              (''text'', PStr user_text)]])]])]"

definition invoke_model_kwargs :: "string \<Rightarrow> string \<Rightarrow> kwargs" where
  "invoke_model_kwargs body model_id =
     [(''body'', PStr body),
      (''modelId'', PStr model_id),
      (''accept'', PStr ''application/json''),
      (''contentType'', PStr ''application/json'')]"

fun invoke_loop :: "pylib \<Rightarrow> world \<Rightarrow> client \<Rightarrow> string \<Rightarrow> (string \<times> string) list \<Rightarrow> unit py" where
  "invoke_loop lib w bedrock_runtime body [] = ret ()"
| "invoke_loop lib w bedrock_runtime body ((inference_type, model_id) # rest) =
     py_bind (py_time w) (\<lambda>start.
     py_bind (api w bedrock_runtime ''invoke_model''
                (invoke_model_kwargs body model_id)) (\<lambda>response.
     py_bind (py_time w) (\<lambda>stop.
     py_bind (lift (dict_get response ''body'')) (\<lambda>stream_body.
     py_bind (lift (read_json stream_body)) (\<lambda>response_body.
     py_seq (print1 (''::'' @ inference_type @ ''::Response time: ''
                     @ py_str lib (PInt (py_int (stop - start))) @ '' second(s)''))
    (py_bind (lift (subscript response_body ''content'')) (\<lambda>content.
     py_bind (lift (first_item content)) (\<lambda>block.
     py_bind (lift (subscript block ''text'')) (\<lambda>text.
     py_seq (print1 (''::'' @ inference_type @ ''::Response output: ''
                     @ format_value lib text))
       (invoke_loop lib w bedrock_runtime body rest))))))))))"

definition cell19 :: "pylib \<Rightarrow> world \<Rightarrow> client \<Rightarrow> unit py" where
  "cell19 lib w bedrock_runtime =
     py_seq (py_import w [''json''])
       (invoke_loop lib w bedrock_runtime
          (json_dumps lib (anthropic_body system_prompt input_message))
          [(''Foundation Model'', ''anthropic.claude-3-sonnet-20240229-v1:0''),
           (''Inference Profile'', ''us.anthropic.claude-3-sonnet-20240229-v1:0'')])"

text \<open>
  The LangChain chat models. The constructor is called with the keyword arguments and the
  client; \<open>llm.invoke(messages)\<close> is one logged call of the chat model, and the world answers
  with the \<open>content\<close> of the message that comes back.
\<close>

definition new_chat_model :: "world \<Rightarrow> chat_model \<Rightarrow> chat_model py" where
  "new_chat_model w m = py_seq (construct w (chat_class m) (chat_kwargs m)) (ret m)"

definition invoke_chat :: "world \<Rightarrow> chat_model \<Rightarrow> pyval \<Rightarrow> pyval py" where
  "invoke_chat w llm messages s =
     logged (ChatInvoke llm messages) Value (chat_invoke w (length (trace s)) llm messages) s"

definition poetic_messages :: pyval where
  "poetic_messages =
     PList [PTuple [PStr ''system'',
                    PStr ''You are a helpful assistant that shapes sentences into poetic form. Translate the user sentence.''],
            PTuple [PStr ''human'', PStr ''I love programming.'']]"

text \<open>
  \<^verbatim>\<open>
  from langchain_aws import ChatBedrockConverse
  llm = ChatBedrockConverse(
      model='us.anthropic.claude-3-sonnet-20240229-v1:0',
      temperature=0,
      max_tokens=None,
      client=bedrock_runtime,
  )
  print(llm.invoke(messages).content)
  \<close>
\<close>

definition sonnet_converse_chat :: "client \<Rightarrow> chat_model" where
  "sonnet_converse_chat bedrock_runtime =
     \<lparr>chat_class = ''ChatBedrockConverse'',
      chat_kwargs = [(''model'', PStr ''us.anthropic.claude-3-sonnet-20240229-v1:0''),
                     (''temperature'', PInt 0),
                     (''max_tokens'', PNone)],
      chat_client = bedrock_runtime\<rparr>"

definition cell23 :: "pylib \<Rightarrow> world \<Rightarrow> client \<Rightarrow> unit py" where
  "cell23 lib w bedrock_runtime =
     py_seq (py_import w [''langchain_aws''])
    (py_bind (new_chat_model w (sonnet_converse_chat bedrock_runtime)) (\<lambda>llm.
     py_bind (invoke_chat w llm poetic_messages) (\<lambda>content.
     print1 (format_value lib content))))"

text \<open>
  \<^verbatim>\<open>
  from langchain_aws import ChatBedrock
  model_parameter = {"temperature": 0.0, "top_p": .5, "max_tokens_to_sample": 200}
  llm = ChatBedrock(
      model_id='us.anthropic.claude-3-sonnet-20240229-v1:0',
      model_kwargs=model_parameter,
      beta_use_converse_api=True,
      client=bedrock_runtime,
      region_name='us-east-1'
  )
  print(llm.invoke(messages).content)
  \<close>
\<close>

definition sonnet_chat :: "client \<Rightarrow> chat_model" where
  "sonnet_chat bedrock_runtime =
     \<lparr>chat_class = ''ChatBedrock'',
      chat_kwargs = [(''model_id'', PStr ''us.anthropic.claude-3-sonnet-20240229-v1:0''),
                     (''model_kwargs'',
                        PDict [(''temperature'', PFloat 0.0),
                               (''top_p'', PFloat 0.5),
                               (''max_tokens_to_sample'', PInt 200)]),
                     (''beta_use_converse_api'', PBool True),
                     (''region_name'', PStr ''us-east-1'')],
      chat_client = bedrock_runtime\<rparr>"

definition cell25 :: "pylib \<Rightarrow> world \<Rightarrow> client \<Rightarrow> unit py" where
  "cell25 lib w bedrock_runtime =
     py_seq (py_import w [''langchain_aws''])
    (py_bind (new_chat_model w (sonnet_chat bedrock_runtime)) (\<lambda>llm.
     py_bind (invoke_chat w llm poetic_messages) (\<lambda>content.
     print1 (format_value lib content))))"

text \<open>
  \<^verbatim>\<open>
  from langchain_aws import ChatBedrock
  model_parameter = {"temperature": 0.0, "top_p": .5}
  llm = ChatBedrock(
      provider="anthropic",
      model_id="us.anthropic.claude-3-haiku-20240307-v1:0",
      model_kwargs=model_parameter,
      client=bedrock_runtime,
  )
  print(llm.invoke(messages).content)
  \<close>
  Cell 27 passes the list of messages. Cell 29 has no import; it builds the same chat model
  again and passes the JSON text of an Anthropic request body.
\<close>

definition haiku_chat :: "client \<Rightarrow> chat_model" where
  "haiku_chat bedrock_runtime =
     \<lparr>chat_class = ''ChatBedrock'',
      chat_kwargs = [(''provider'', PStr ''anthropic''),
                     (''model_id'', PStr ''us.anthropic.claude-3-haiku-20240307-v1:0''),
                     (''model_kwargs'',
                        PDict [(''temperature'', PFloat 0.0), (''top_p'', PFloat 0.5)])],
      chat_client = bedrock_runtime\<rparr>"

definition cell27 :: "pylib \<Rightarrow> world \<Rightarrow> client \<Rightarrow> unit py" where
  "cell27 lib w bedrock_runtime =
     py_seq (py_import w [''langchain_aws''])
    (py_bind (new_chat_model w (haiku_chat bedrock_runtime)) (\<lambda>llm.
     py_bind (invoke_chat w llm poetic_messages) (\<lambda>content.
     print1 (format_value lib content))))"

definition poetic_body :: "pylib \<Rightarrow> pyval" where
  "poetic_body lib =
     PStr (json_dumps lib
       (anthropic_body
          ''You are a helpful assistant that shapes sentences into poetic form. Translate the user sentence.''
          ''I love programming.''))"

definition cell29 :: "pylib \<Rightarrow> world \<Rightarrow> client \<Rightarrow> unit py" where
  "cell29 lib w bedrock_runtime =
     py_bind (new_chat_model w (haiku_chat bedrock_runtime)) (\<lambda>llm.
     py_bind (invoke_chat w llm (poetic_body lib)) (\<lambda>content.
     print1 (format_value lib content)))"

text \<open>
  \<^verbatim>\<open>
  import json
  log_group_name = 'bedrock-model-invocation-logging'
  role_name = 'AmazonBedrockModelInvocationCWDeliveryRole'
  assume_role_policy_doc = {
      "Version": "2012-10-17",
      "Statement": [{
          "Effect": "Allow",
          "Principal": {"Service": "bedrock.amazonaws.com"},
          "Action": "sts:AssumeRole",
          "Condition": {
              "StringEquals": {"aws:SourceAccount": account_id},
              "ArnLike": {"aws:SourceArn": f"arn:aws:bedrock:{region_name}:{account_id}:*"}
          }
      }]
  }
  iam_client = boto3.client('iam', region_name=region_name)
  try:
      response = iam_client.create_role(
          RoleName=role_name,
          AssumeRolePolicyDocument=json.dumps(assume_role_policy_doc),
      )
  except iam_client.exceptions.EntityAlreadyExistsException:
      pass
  policy_doc = {
      "Version": "2012-10-17",
      "Statement": [{
          "Effect": "Allow",
          "Action": ["logs:CreateLogStream", "logs:PutLogEvents"],
          "Resource": f"arn:aws:logs:{region_name}:{account_id}:log-group:{log_group_name}:log-stream:aws/bedrock/modelinvocations",
      }]
  }
  iam_client.put_role_policy(
      RoleName=role_name,
      PolicyName=role_name,
      PolicyDocument=json.dumps(policy_doc),
  )

  logs_client = boto3.client('logs', region_name=region_name)
  try:
      logs_client.create_log_group(logGroupName=log_group_name)
  except logs_client.exceptions.ResourceAlreadyExistsException:
      pass
  logs_client.put_retention_policy(logGroupName=log_group_name, retentionInDays=365)

  response = bedrock_client.put_model_invocation_logging_configuration(
      loggingConfig={
          'cloudWatchConfig': {
              'logGroupName': log_group_name,
              'roleArn': f"arn:aws:iam::{account_id}:role/{role_name}",
          },
          'imageDataDeliveryEnabled': False,
          'imageDataDeliveryEnabled': False,
          'embeddingDataDeliveryEnabled': False,
      }
  )
  \<close>
\<close>

definition log_group_name :: string where
  "log_group_name = ''bedrock-model-invocation-logging''"

definition role_name :: string where
  "role_name = ''AmazonBedrockModelInvocationCWDeliveryRole''"

definition assume_role_policy_doc :: "pylib \<Rightarrow> pyval \<Rightarrow> pyval" where
  "assume_role_policy_doc lib account_id =
     PDict [(''Version'', PStr ''2012-10-17''),
            (''Statement'',
               PList [PDict [(''Effect'', PStr ''Allow''),
                             (''Principal'', PDict [(''Service'', PStr ''bedrock.amazonaws.com'')]),
                             (''Action'', PStr ''sts:AssumeRole''),
                             (''Condition'',
                                PDict [(''StringEquals'',
                                          PDict [(''aws:SourceAccount'', account_id)]),
                                       (''ArnLike'',
                                          PDict [(''aws:SourceArn'',
                                                  PStr (''arn:aws:bedrock:'' @ region_name @ '':''
                                                        @ format_value lib account_id @ '':*''))])])]])]"

definition policy_doc :: "pylib \<Rightarrow> pyval \<Rightarrow> pyval" where
  "policy_doc lib account_id =
     PDict [(''Version'', PStr ''2012-10-17''),
            (''Statement'',
               PList [PDict [(''Effect'', PStr ''Allow''),
                             (''Action'', PList [PStr ''logs:CreateLogStream'',
                                                 PStr ''logs:PutLogEvents'']),
                             (''Resource'',
                                PStr (''arn:aws:logs:'' @ region_name @ '':''
                                      @ format_value lib account_id @ '':log-group:''
                                      @ log_group_name
                                      @ '':log-stream:aws/bedrock/modelinvocations''))]])]"

text \<open>
  The clients that \<open>boto3.client('iam', region_name=region_name)\<close> and
  \<open>boto3.client('logs', region_name=region_name)\<close> return when they return.
\<close>

definition iam_client :: client where
  "iam_client = default_client ''iam'' [(''region_name'', PStr region_name)]"

definition logs_client :: client where
  "logs_client = default_client ''logs'' [(''region_name'', PStr region_name)]"

text \<open>The keyword arguments of the requests of the cell.\<close>

definition create_role_kwargs :: "pylib \<Rightarrow> pyval \<Rightarrow> kwargs" where
  "create_role_kwargs lib account_id =
     [(''RoleName'', PStr role_name),
      (''AssumeRolePolicyDocument'',
         PStr (json_dumps lib (assume_role_policy_doc lib account_id)))]"

definition put_role_policy_kwargs :: "pylib \<Rightarrow> pyval \<Rightarrow> kwargs" where
  "put_role_policy_kwargs lib account_id =
     [(''RoleName'', PStr role_name),
      (''PolicyName'', PStr role_name),
      (''PolicyDocument'', PStr (json_dumps lib (policy_doc lib account_id)))]"

definition create_log_group_kwargs :: kwargs where
  "create_log_group_kwargs = [(''logGroupName'', PStr log_group_name)]"

definition put_retention_policy_kwargs :: kwargs where
  "put_retention_policy_kwargs =
     [(''logGroupName'', PStr log_group_name), (''retentionInDays'', PInt 365)]"

definition logging_configuration_kwargs :: "pylib \<Rightarrow> pyval \<Rightarrow> kwargs" where
  "logging_configuration_kwargs lib account_id =
     [(''loggingConfig'',
       dict_literal
         [(''cloudWatchConfig'',
             PDict [(''logGroupName'', PStr log_group_name),
                    (''roleArn'',
                       PStr (''arn:aws:iam::'' @ format_value lib account_id
                             @ '':role/'' @ role_name))]),
          (''imageDataDeliveryEnabled'', PBool False),
          (''imageDataDeliveryEnabled'', PBool False),
          (''embeddingDataDeliveryEnabled'', PBool False)])]"

text \<open>The bodies of the two \<open>try\<close> statements.\<close>

definition create_role :: "pylib \<Rightarrow> world \<Rightarrow> client \<Rightarrow> pyval \<Rightarrow> unit py" where
  "create_role lib w iam account_id =
     py_bind (api w iam ''create_role'' (create_role_kwargs lib account_id)) (\<lambda>response.
     ret ())"

definition create_log_group :: "world \<Rightarrow> client \<Rightarrow> unit py" where
  "create_log_group w logs =
     py_bind (api w logs ''create_log_group'' create_log_group_kwargs) (\<lambda>_.
     ret ())"

text \<open>The cell leaves \<open>logs_client\<close> to cell 33.\<close>

definition cell31 :: "pylib \<Rightarrow> world \<Rightarrow> pyval \<Rightarrow> client \<Rightarrow> client py" where
  "cell31 lib w account_id bedrock_client =
     py_seq (py_import w [''json''])
    (py_bind (boto3_client w ''iam'' [(''region_name'', PStr region_name)]) (\<lambda>iam.
     py_seq (try_except_pass (create_role lib w iam account_id) EntityAlreadyExistsException)
    (py_bind (api w iam ''put_role_policy''
                (put_role_policy_kwargs lib account_id)) (\<lambda>_.
     py_bind (boto3_client w ''logs'' [(''region_name'', PStr region_name)]) (\<lambda>logs.
     py_seq (try_except_pass (create_log_group w logs) ResourceAlreadyExistsException)
    (py_bind (api w logs ''put_retention_policy'' put_retention_policy_kwargs) (\<lambda>_.
     py_bind (api w bedrock_client ''put_model_invocation_logging_configuration''
                (logging_configuration_kwargs lib account_id)) (\<lambda>response.
     ret logs))))))))"

text \<open>
  \<^verbatim>\<open>
  logs_client.put_metric_filter(
      logGroupName=log_group_name,
      filterName='bedrock_cross_region_inference_rerouted',
      filterPattern=f'{{ $.inferenceRegion != "{region_name}" }}',
      metricTransformations=[{
          'metricNamespace': 'Custom',
          'metricName': 'bedrock_cross_region_inference_rerouted',
          'metricValue': '1',
          'defaultValue': 0,
          'unit': 'Count',
      }]
  )
  \<close>
\<close>

definition put_metric_filter_kwargs :: kwargs where
  "put_metric_filter_kwargs =
     [(''logGroupName'', PStr log_group_name),
      (''filterName'', PStr ''bedrock_cross_region_inference_rerouted''),
      (''filterPattern'',
         PStr (''{ $.inferenceRegion != '' @ dq @ region_name @ dq @ '' }'')),
      (''metricTransformations'',
         PList [PDict [(''metricNamespace'', PStr ''Custom''),
                       (''metricName'', PStr ''bedrock_cross_region_inference_rerouted''),
                       (''metricValue'', PStr ''1''),
                       (''defaultValue'', PInt 0),
                       (''unit'', PStr ''Count'')]])]"

definition cell33 :: "world \<Rightarrow> client \<Rightarrow> unit py" where
  "cell33 w logs =
     py_bind (api w logs ''put_metric_filter'' put_metric_filter_kwargs) (\<lambda>_.
     ret ())"

text \<open>
  The clients that cell 7 obtains from \<open>get_bedrock_client\<close>: the profile has been set
  and the region is given.
\<close>

definition notebook_client :: "string \<Rightarrow> client" where
  "notebook_client service =
     \<lparr>c_session = \<lparr>ses_kwargs = [(''region_name'', PStr ''us-east-1''),
                                  (''profile_name'', PStr ''profile_acct_4'')]\<rparr>,
      c_service = service,
      c_config = Some \<lparr>cfg_region_name = Some ''us-east-1'',
                       cfg_retries = Some \<lparr>max_attempts = 10, mode = ''standard''\<rparr>\<rparr>,
      c_kwargs = [(''region_name'', PStr ''us-east-1'')]\<rparr>"

text \<open>The notebook, run from the first cell to the last.\<close>

definition cross_region_notebook :: "pylib \<Rightarrow> world \<Rightarrow> unit py" where
  "cross_region_notebook lib w =
     py_seq (cell3 w)
    (py_seq (cell4 lib w)
    (py_seq (cell5 lib w)
    (py_bind (cell7 lib w) (\<lambda>(account_id, bedrock_client, bedrock_runtime).
     py_seq (cell9 w bedrock_client)
    (py_seq (cell11 w bedrock_client)
    (py_seq (cell15 lib w bedrock_runtime)
    (py_seq (cell17 lib w account_id bedrock_runtime)
    (py_seq (cell19 lib w bedrock_runtime)
    (py_seq (cell23 lib w bedrock_runtime)
    (py_seq (cell25 lib w bedrock_runtime)
    (py_seq (cell27 lib w bedrock_runtime)
    (py_seq (cell29 lib w bedrock_runtime)
    (py_bind (cell31 lib w account_id bedrock_client) (\<lambda>logs_client.
     cell33 w logs_client))))))))))))))"

section \<open>The question-answering notebook\<close>

subsection \<open>The LangChain objects\<close>

text \<open>
  The notebook builds LangChain objects and calls three of them: \<open>loader.load()\<close>,
  \<open>PGVector.from_documents(...)\<close> and the chain \<open>qa({"query": query})\<close>. Each call is one
  logged event that the world answers. A constructor sends nothing; it raises or returns
  the object, which is the record of its arguments.
\<close>

definition Bedrock :: "world \<Rightarrow> string \<Rightarrow> client \<Rightarrow> kwargs \<Rightarrow> bedrock_llm py" where
  "Bedrock w model_id c model_kwargs =
     py_seq (construct w ''Bedrock''
               [(''model_id'', PStr model_id), (''model_kwargs'', PDict model_kwargs)])
       (ret \<lparr>llm_model_id = model_id, llm_client = c, llm_model_kwargs = model_kwargs\<rparr>)"

definition BedrockEmbeddings :: "world \<Rightarrow> string \<Rightarrow> client \<Rightarrow> bedrock_embeddings py" where
  "BedrockEmbeddings w model_id c =
     py_seq (construct w ''BedrockEmbeddings'' [(''model_id'', PStr model_id)])
       (ret \<lparr>emb_model_id = model_id, emb_client = c\<rparr>)"

definition load_documents :: "world \<Rightarrow> string \<Rightarrow> document list py" where
  "load_documents w path s =
     logged (LoadDirectory path) Documents (load_directory w (length (trace s)) path) s"

text \<open>
  \<open>PGVector.from_documents(embedding=..., documents=..., collection_name=...,
  connection_string=...)\<close> returns the handle of the store.
\<close>

definition from_documents ::
  "world \<Rightarrow> bedrock_embeddings \<Rightarrow> document list \<Rightarrow> string \<Rightarrow> string \<Rightarrow> pgvector py" where
  "from_documents w emb docs coll conn s =
     py_seq (logged (FromDocuments emb docs coll conn) (\<lambda>_. Done)
               (store_documents w (length (trace s)) emb docs coll conn))
       (ret \<lparr>collection_name = coll, connection_string = conn, embedding_function = emb\<rparr>) s"

text \<open>\<open>PromptTemplate(...)\<close>, \<open>db.as_retriever(...)\<close> and \<open>RetrievalQA.from_chain_type(...)\<close>\<close>

definition PromptTemplate :: "world \<Rightarrow> string \<Rightarrow> string list \<Rightarrow> langchain_prompt py" where
  "PromptTemplate w template input_variables =
     py_seq (construct w ''PromptTemplate''
               [(''template'', PStr template),
                (''input_variables'', PList (map PStr input_variables))])
       (ret \<lparr>pt_template = template, pt_input_variables = input_variables\<rparr>)"

definition as_retriever :: "world \<Rightarrow> pgvector \<Rightarrow> string \<Rightarrow> kwargs \<Rightarrow> retriever py" where
  "as_retriever w db search_type search_kwargs =
     py_seq (construct w ''VectorStoreRetriever''
               [(''search_type'', PStr search_type), (''search_kwargs'', PDict search_kwargs)])
       (ret \<lparr>r_store = db, r_search_type = search_type, r_search_kwargs = search_kwargs\<rparr>)"

definition from_chain_type ::
  "world \<Rightarrow> bedrock_llm \<Rightarrow> string \<Rightarrow> retriever \<Rightarrow> bool \<Rightarrow> langchain_prompt \<Rightarrow> retrieval_qa py" where
  "from_chain_type w m chain_type r return_source_documents prompt =
     py_seq (construct w ''RetrievalQA''
               [(''chain_type'', PStr chain_type),
                (''return_source_documents'', PBool return_source_documents)])
       (ret \<lparr>qa_llm = m, qa_chain_type = chain_type, qa_retriever = r,
             qa_return_source_documents = return_source_documents, qa_prompt = prompt\<rparr>)"

text \<open>\<open>qa({"query": query})\<close>\<close>

definition call_qa :: "world \<Rightarrow> retrieval_qa \<Rightarrow> string \<Rightarrow> qa_answer py" where
  "call_qa w chain question s =
     logged (CallChain chain question) Answer (call_chain w (length (trace s)) chain question) s"

text \<open>\<open>answer[key]\<close> for the two keys that the notebook reads\<close>

definition answer_item :: "string \<Rightarrow> 'a option \<Rightarrow> exn + 'a" where
  "answer_item key v = (case v of None \<Rightarrow> Inl (KeyError key) | Some x \<Rightarrow> Inr x)"

subsection \<open>The cells\<close>

text \<open>
  The code cells of the notebook are its cells 6, 8, 9, 10 and 12 (cells 2, 3 and 5 install
  packages).
  \<^verbatim>\<open>
  import json
  import os
  import sys
  import boto3
  import botocore
  boto3_bedrock = boto3.client("bedrock-runtime")
  \<close>
  The cell leaves \<open>boto3_bedrock\<close> to cell 8.
\<close>

definition rag_cell6 :: "world \<Rightarrow> client py" where
  "rag_cell6 w =
     py_seq (py_import w [''json'', ''os'', ''sys'', ''boto3'', ''botocore''])
       (boto3_client w ''bedrock-runtime'' [])"

text \<open>
  \<^verbatim>\<open>
  from langchain.document_loaders import CSVLoader
  from langchain.text_splitter import CharacterTextSplitter
  from langchain.embeddings import HuggingFaceInstructEmbeddings
  from langchain.vectorstores.pgvector import PGVector, DistanceStrategy
  from langchain.docstore.document import Document
  from langchain.embeddings import BedrockEmbeddings
  from langchain.llms.bedrock import Bedrock
  import os

  os.environ["PGVECTOR_DRIVER"] = "psycopg2"
  os.environ["PGVECTOR_USER"] = "<<postgres user>>"
  os.environ["PGVECTOR_PASSWORD"] = "<<password>>"
  os.environ["PGVECTOR_HOST"] = "<<host endpoint>>"
  os.environ["PGVECTOR_PORT"] = "5432"
  os.environ["PGVECTOR_DATABASE"] = "<<database name>>"

  llm = Bedrock(model_id="anthropic.claude-v2", client=boto3_bedrock,
                model_kwargs={"max_tokens_to_sample": 200})
  bedrock_embeddings = BedrockEmbeddings(model_id="amazon.titan-embed-text-v1", client=boto3_bedrock)
  print(bedrock_embeddings.model_id)
  \<close>
  The cell leaves \<open>llm\<close> and \<open>bedrock_embeddings\<close> to the later cells; \<open>cell8_modules\<close> are
  the modules that it imports.
\<close>

definition cell8_modules :: "string list" where
  "cell8_modules =
     [''langchain.document_loaders'', ''langchain.text_splitter'', ''langchain.embeddings'',
      ''langchain.vectorstores.pgvector'', ''langchain.docstore.document'',
      ''langchain.embeddings'', ''langchain.llms.bedrock'', ''os'']"

definition rag_cell8 :: "world \<Rightarrow> client \<Rightarrow> (bedrock_llm \<times> bedrock_embeddings) py" where
  "rag_cell8 w boto3_bedrock =
     py_seq (py_import w cell8_modules)
    (py_seq (set_environ ''PGVECTOR_DRIVER'' ''psycopg2'')
    (py_seq (set_environ ''PGVECTOR_USER'' ''<<postgres user>>'')
    (py_seq (set_environ ''PGVECTOR_PASSWORD'' ''<<password>>'')
    (py_seq (set_environ ''PGVECTOR_HOST'' ''<<host endpoint>>'')
    (py_seq (set_environ ''PGVECTOR_PORT'' ''5432'')
    (py_seq (set_environ ''PGVECTOR_DATABASE'' ''<<database name>>'')
    (py_bind (Bedrock w ''anthropic.claude-v2'' boto3_bedrock
                [(''max_tokens_to_sample'', PInt 200)]) (\<lambda>llm.
     py_bind (BedrockEmbeddings w ''amazon.titan-embed-text-v1'' boto3_bedrock) (\<lambda>bedrock_embeddings.
     py_seq (print1 (emb_model_id bedrock_embeddings))
       (ret (llm, bedrock_embeddings)))))))))))"

text \<open>
  \<^verbatim>\<open>
  import numpy as np
  import os
  from langchain.text_splitter import (CharacterTextSplitter, RecursiveCharacterTextSplitter)
  from langchain.document_loaders import PyPDFLoader, PyPDFDirectoryLoader
  from langchain.vectorstores.pgvector import PGVector, DistanceStrategy
  from typing import List, Tuple
  from langchain.vectorstores import pgvector

  loader = PyPDFDirectoryLoader("./data/")
  connection_string = PGVector.connection_string_from_db_params(
      driver=os.environ.get("PGVECTOR_DRIVER"),
      user=os.environ.get("PGVECTOR_USER"),
      password=os.environ.get("PGVECTOR_PASSWORD"),
      host=os.environ.get("PGVECTOR_HOST"),
      port=os.environ.get("PGVECTOR_PORT"),
      database=os.environ.get("PGVECTOR_DATABASE"),
  )
  documents = loader.load()
  text_splitter = CharacterTextSplitter(chunk_size=1000, chunk_overlap=0)
  docs = text_splitter.split_documents(documents)
  print(len(documents))
  print(len(docs))
  \<close>
  The cell leaves \<open>connection_string\<close> and \<open>docs\<close> to cell 10.
\<close>

definition rag_cell9 :: "pylib \<Rightarrow> world \<Rightarrow> (string \<times> document list) py" where
  "rag_cell9 lib w =
     py_seq (py_import w [''numpy'', ''os'', ''langchain.text_splitter'',
                          ''langchain.document_loaders'', ''langchain.vectorstores.pgvector'',
                          ''typing'', ''langchain.vectorstores''])
    (py_seq (construct w ''PyPDFDirectoryLoader'' [(''path'', PStr ''./data/'')])
    (py_bind get_environ (\<lambda>env.
     let conn = connection_string_from_db_params lib
                  (env ''PGVECTOR_DRIVER'') (env ''PGVECTOR_USER'') (env ''PGVECTOR_PASSWORD'')
                  (env ''PGVECTOR_HOST'') (env ''PGVECTOR_PORT'') (env ''PGVECTOR_DATABASE'') in
     py_bind (load_documents w ''./data/'') (\<lambda>documents.
     py_seq (construct w ''CharacterTextSplitter''
               [(''chunk_size'', PInt 1000), (''chunk_overlap'', PInt 0)])
    (let docs = split_documents lib 1000 0 documents in
     py_seq (print1 (py_str lib (PInt (int (length documents)))))
    (py_seq (print1 (py_str lib (PInt (int (length docs)))))
       (ret (conn, docs))))))))"

text \<open>
  \<^verbatim>\<open>
  collection_name = "tbl_store_embedding"
  print({connection_string})
  db = PGVector.from_documents(
      embedding=bedrock_embeddings,
      documents=docs,
      collection_name=collection_name,
      connection_string=connection_string,
  )
  \<close>
\<close>

text \<open>The connection string that cell 9 builds from the variables that cell 8 has set.\<close>

definition pg_connection :: "pylib \<Rightarrow> string" where
  "pg_connection lib =
     connection_string_from_db_params lib (Some ''psycopg2'') (Some ''<<postgres user>>'')
       (Some ''<<password>>'') (Some ''<<host endpoint>>'') (Some ''5432'')
       (Some ''<<database name>>'')"

definition rag_cell10 ::
  "pylib \<Rightarrow> world \<Rightarrow> bedrock_embeddings \<Rightarrow> string \<Rightarrow> document list \<Rightarrow> pgvector py" where
  "rag_cell10 lib w bedrock_embeddings conn docs =
     py_seq (print1 (py_str lib (PSet [PStr conn])))
       (from_documents w bedrock_embeddings docs ''tbl_store_embedding'' conn)"

text \<open>
  \<^verbatim>\<open>
  from langchain.vectorstores.pgvector import PGVector
  from langchain.indexes.vectorstore import VectorStoreIndexWrapper
  from langchain.indexes import VectorstoreIndexCreator
  from langchain.prompts import PromptTemplate
  from langchain.chains import RetrievalQA

  query = "Tell me the summary or key take away from AWS Well Architected  framework int bulletd points"
  prompt_template = """

  Human: Use the following pieces of context to provide a detailed respone to the question at the end
  <context>
  {context}
  </context

  Question: {question}

  Assistant:"""
  PROMPT = PromptTemplate(template=prompt_template, input_variables=["context", "question"])
  qa = RetrievalQA.from_chain_type(
      llm=llm,
      chain_type="stuff",
      retriever=db.as_retriever(search_type="similarity", search_kwargs={"k": 3}),
      return_source_documents=True,
      chain_type_kwargs={"prompt": PROMPT},
  )
  answer = qa({"query": query})
  print(answer["result"])

  answer["source_documents"]
  \<close>
  The cell is given the values of \<open>answer\<close> and of its last expression.
\<close>

definition query :: string where
  "query =
     ''Tell me the summary or key take away from AWS Well Architected  framework int bulletd points''"

definition prompt_template :: string where
  "prompt_template =
     nl @ nl
     @ ''Human: Use the following pieces of context to provide a detailed respone to the question at the end''
     @ nl @ ''<context>'' @ nl @ ''{context}'' @ nl @ ''</context'' @ nl @ nl
     @ ''Question: {question}'' @ nl @ nl @ ''Assistant:''"

definition rag_cell12 ::
  "pylib \<Rightarrow> world \<Rightarrow> bedrock_llm \<Rightarrow> pgvector \<Rightarrow> (qa_answer \<times> document list) py" where
  "rag_cell12 lib w llm db =
     py_seq (py_import w [''langchain.vectorstores.pgvector'', ''langchain.indexes.vectorstore'',
                          ''langchain.indexes'', ''langchain.prompts'', ''langchain.chains''])
    (py_bind (PromptTemplate w prompt_template [''context'', ''question'']) (\<lambda>PROMPT.
     py_bind (as_retriever w db ''similarity'' [(''k'', PInt 3)]) (\<lambda>retriever.
     py_bind (from_chain_type w llm ''stuff'' retriever True PROMPT) (\<lambda>qa.
     py_bind (call_qa w qa query) (\<lambda>answer.
     py_bind (lift (answer_item ''result'' (ans_result answer))) (\<lambda>result.
     py_seq (print1 result)
    (py_bind (lift (answer_item ''source_documents'' (ans_source_documents answer))) (\<lambda>source_documents.
     ret (answer, source_documents)))))))))"

text \<open>The notebook, run from the first cell to the last.\<close>

definition rag_notebook :: "pylib \<Rightarrow> world \<Rightarrow> (qa_answer \<times> document list) py" where
  "rag_notebook lib w =
     py_bind (rag_cell6 w) (\<lambda>boto3_bedrock.
     py_bind (rag_cell8 w boto3_bedrock) (\<lambda>(llm, bedrock_embeddings).
     py_bind (rag_cell9 lib w) (\<lambda>(connection_string, docs).
     py_bind (rag_cell10 lib w bedrock_embeddings connection_string docs) (\<lambda>db.
     rag_cell12 lib w llm db))))"

text \<open>
  The objects that the cells leave in a run in which they complete: the client of cell 6,
  the two objects of cell 8, the store handle of cell 10, and the prompt and the chain of
  cell 12.
\<close>

definition boto3_bedrock :: client where
  "boto3_bedrock = default_client ''bedrock-runtime'' []"

definition llm :: bedrock_llm where
  "llm = \<lparr>llm_model_id = ''anthropic.claude-v2'', llm_client = boto3_bedrock,
          llm_model_kwargs = [(''max_tokens_to_sample'', PInt 200)]\<rparr>"

definition bedrock_embeddings :: bedrock_embeddings where
  "bedrock_embeddings =
     \<lparr>emb_model_id = ''amazon.titan-embed-text-v1'', emb_client = boto3_bedrock\<rparr>"

definition PROMPT :: langchain_prompt where
  "PROMPT = \<lparr>pt_template = prompt_template, pt_input_variables = [''context'', ''question'']\<rparr>"

definition pg_store :: "pylib \<Rightarrow> pgvector" where
  "pg_store lib =
     \<lparr>collection_name = ''tbl_store_embedding'', connection_string = pg_connection lib,
      embedding_function = bedrock_embeddings\<rparr>"

definition qa :: "pgvector \<Rightarrow> retrieval_qa" where
  "qa store =
     \<lparr>qa_llm = llm,
      qa_chain_type = ''stuff'',
      qa_retriever = \<lparr>r_store = store, r_search_type = ''similarity'',
                      r_search_kwargs = [(''k'', PInt 3)]\<rparr>,
      qa_return_source_documents = True,
      qa_prompt = PROMPT\<rparr>"

section \<open>Observations on runs\<close>

text \<open>The events that a computation adds to the log between two states.\<close>

definition new_events :: "pystate \<Rightarrow> pystate \<Rightarrow> event list" where
  "new_events s s' = drop (length (trace s)) (trace s')"

definition failed :: "event \<Rightarrow> bool" where
  "failed e = isl (snd e)"

text \<open>The exception that a computation left with, if any.\<close>

definition raised :: "exn + 'a \<Rightarrow> exn option" where
  "raised r = (case r of Inl x \<Rightarrow> Some x | Inr _ \<Rightarrow> None)"

text \<open>
  What building a client raises, if anything: first the session is built, then the client.
\<close>

definition builds :: "world \<Rightarrow> client \<Rightarrow> exn option" where
  "builds w c =
     (case build_session w (ses_kwargs (c_session c)) of
        Some e \<Rightarrow> Some e
      | None \<Rightarrow> build_client w (c_session c) (c_service c) (c_config c) (c_kwargs c))"

text \<open>The retry configuration and the region that a client was built with.\<close>

definition client_retries :: "client \<Rightarrow> retries option" where
  "client_retries c = (case c_config c of None \<Rightarrow> None | Some cfg \<Rightarrow> cfg_retries cfg)"

definition client_region :: "client \<Rightarrow> pyval option" where
  "client_region c = map_of (c_kwargs c) ''region_name''"

definition config_region :: "client \<Rightarrow> string option" where
  "config_region c = (case c_config c of None \<Rightarrow> None | Some cfg \<Rightarrow> cfg_region_name cfg)"

text \<open>
  No request that failed is made again: after a failed event, no later event has the same
  request.
\<close>

fun no_reattempt :: "event list \<Rightarrow> bool" where
  "no_reattempt [] = True"
| "no_reattempt (e # es) = ((\<not> failed e \<or> fst e \<notin> set (map fst es)) \<and> no_reattempt es)"

text \<open>
  The two failures that cell 31 handles: \<open>create_role\<close> of the IAM client raising
  \<open>EntityAlreadyExistsException\<close>, and \<open>create_log_group\<close> of the logs client raising
  \<open>ResourceAlreadyExistsException\<close>.
\<close>

fun caught :: "event \<Rightarrow> bool" where
  "caught (Api c operation args, Inl x) =
     (c = iam_client \<and> operation = ''create_role'' \<and> x = EntityAlreadyExistsException
      \<or> c = logs_client \<and> operation = ''create_log_group'' \<and> x = ResourceAlreadyExistsException)"
| "caught _ = False"

text \<open>
  Every failure in the log is one of the two handled ones, or it is the last event and its
  exception is the one the run left with.
\<close>

fun handling_ok :: "exn option \<Rightarrow> event list \<Rightarrow> bool" where
  "handling_ok r [] = True"
| "handling_ok r [e] = (case snd e of Inr _ \<Rightarrow> True | Inl x \<Rightarrow> caught e \<or> r = Some x)"
| "handling_ok r (e # e' # es) =
     ((case snd e of Inr _ \<Rightarrow> True | Inl x \<Rightarrow> caught e) \<and> handling_ok r (e' # es))"

text \<open>
  A request in short: the service (or LangChain class), the operation, and the model
  identifier it names, if any.
\<close>

fun call_summary :: "request \<Rightarrow> string \<times> string \<times> pyval option" where
  "call_summary (Api c operation args) = (c_service c, operation, map_of args ''modelId'')"
| "call_summary (ChatInvoke m msgs) =
     (chat_class m, ''invoke'',
      (case map_of (chat_kwargs m) ''model_id'' of
         None \<Rightarrow> map_of (chat_kwargs m) ''model''
       | Some v \<Rightarrow> Some v))"
| "call_summary (LoadDirectory path) = (''PyPDFDirectoryLoader'', ''load'', None)"
| "call_summary (FromDocuments emb docs coll conn) =
     (''PGVector'', ''from_documents'', Some (PStr (emb_model_id emb)))"
| "call_summary (CallChain chain question) =
     (''RetrievalQA'', ''__call__'', Some (PStr (llm_model_id (qa_llm chain))))"

definition calls :: "event list \<Rightarrow> (string \<times> string \<times> pyval option) list" where
  "calls es = map (\<lambda>e. call_summary (fst e)) es"

text \<open>The model identifiers passed to one operation of the Bedrock runtime, in order.\<close>

definition model_ids :: "string \<Rightarrow> event list \<Rightarrow> pyval option list" where
  "model_ids operation es =
     map (\<lambda>c. snd (snd c))
       (filter (\<lambda>c. fst c = ''bedrock-runtime'' \<and> fst (snd c) = operation) (calls es))"

text \<open>The requests that create or change a resource of IAM or of CloudWatch Logs.\<close>

fun resource_write :: "request \<Rightarrow> bool" where
  "resource_write (Api c operation args) = (c_service c = ''iam'' \<or> c_service c = ''logs'')"
| "resource_write _ = False"

text \<open>
  The calls that are given the vector store: \<open>PGVector.from_documents\<close>, which is given its
  connection string and collection name, and a chain whose retriever holds the handle.
\<close>

fun store_call :: "request \<Rightarrow> bool" where
  "store_call (FromDocuments emb docs coll conn) = True"
| "store_call (CallChain chain question) = True"
| "store_call _ = False"



text \<open>
  The requests of a complete run of the cross-region notebook, for the account identifier
  that \<open>get_caller_identity\<close> returned.
\<close>

definition requests_of_run :: "pylib \<Rightarrow> pyval \<Rightarrow> request list" where
  "requests_of_run lib account_id =
     [Api (notebook_client ''bedrock'') ''list_foundation_models'' [],
      Api (notebook_client ''sts'') ''get_caller_identity'' [],
      Api (notebook_client ''bedrock'') ''list_inference_profiles'' [],
      Api (notebook_client ''bedrock'') ''get_inference_profile''
        [(''inferenceProfileIdentifier'', PStr ''us.anthropic.claude-3-5-sonnet-20240620-v1:0'')],
      Api (notebook_client ''bedrock-runtime'') ''converse''
        (converse_kwargs ''anthropic.claude-3-haiku-20240307-v1:0''),
      Api (notebook_client ''bedrock-runtime'') ''converse''
        (converse_kwargs ''us.anthropic.claude-3-haiku-20240307-v1:0''),
      Api (notebook_client ''bedrock-runtime'') ''converse''
        (converse_kwargs (inference_profile_arn lib account_id)),
      Api (notebook_client ''bedrock-runtime'') ''invoke_model''
        (invoke_model_kwargs (json_dumps lib (anthropic_body system_prompt input_message))
           ''anthropic.claude-3-sonnet-20240229-v1:0''),
      Api (notebook_client ''bedrock-runtime'') ''invoke_model''
        (invoke_model_kwargs (json_dumps lib (anthropic_body system_prompt input_message))
           ''us.anthropic.claude-3-sonnet-20240229-v1:0''),
      ChatInvoke (sonnet_converse_chat (notebook_client ''bedrock-runtime'')) poetic_messages,
      ChatInvoke (sonnet_chat (notebook_client ''bedrock-runtime'')) poetic_messages,
      ChatInvoke (haiku_chat (notebook_client ''bedrock-runtime'')) poetic_messages,
      ChatInvoke (haiku_chat (notebook_client ''bedrock-runtime'')) (poetic_body lib),
      Api iam_client ''create_role'' (create_role_kwargs lib account_id),
      Api iam_client ''put_role_policy'' (put_role_policy_kwargs lib account_id),
      Api logs_client ''create_log_group'' create_log_group_kwargs,
      Api logs_client ''put_retention_policy'' put_retention_policy_kwargs,
      Api (notebook_client ''bedrock'') ''put_model_invocation_logging_configuration''
        (logging_configuration_kwargs lib account_id),
      Api logs_client ''put_metric_filter'' put_metric_filter_kwargs]"

subsection \<open>Invariants of computations\<close>

text \<open>A computation leaves the state as it is.\<close>

definition silent :: "'a py \<Rightarrow> bool" where
  "silent m = (\<forall>s. snd (m s) = s)"

text \<open>A computation keeps a component of the state.\<close>

definition keeps :: "(pystate \<Rightarrow> 'b) \<Rightarrow> 'a py \<Rightarrow> bool" where
  "keeps g m = (\<forall>s. g (snd (m s)) = g s)"



text \<open>
  A computation only adds events, all of them successful, except that a failed request may
  be the last one, and then its exception leaves the computation.
\<close>

definition propagates :: "'a py \<Rightarrow> bool" where
  "propagates m =
     (\<forall>s. \<exists>oks tl. trace (snd (m s)) = trace s @ oks @ tl \<and> (\<forall>e\<in>set oks. \<not> failed e)
        \<and> (tl = [] \<or> (\<exists>rq x. tl = [(rq, Inl x)] \<and> fst (m s) = Inl x)))"


definition avoids :: "request \<Rightarrow> 'a py \<Rightarrow> bool" where
  "avoids rq m = (\<forall>s. \<exists>new. trace (snd (m s)) = trace s @ new \<and> rq \<notin> set (map fst new))"

definition well_handled :: "'a py \<Rightarrow> bool" where
  "well_handled m =
     (\<forall>s. \<exists>new. trace (snd (m s)) = trace s @ new \<and> no_reattempt new
        \<and> handling_ok (raised (fst (m s))) new)"

subsection \<open>A library, a world and a state to run the notebooks in\<close>

text \<open>
  The formatting functions of this library are simple stand-ins; the world answers every
  request with a well-formed response of account \<open>123456789012\<close>.
\<close>

definition lib0 :: pylib where
  "lib0 =
     \<lparr>splitlines = (\<lambda>t. [t]),
      wrap = (\<lambda>t width. if width \<le> 0 then Inl ValueError else Inr [t]),
      py_str = (\<lambda>v. ''<value>''),
      client_str = (\<lambda>c. ''<client '' @ c_service c @ ''>''),
      endpoint_str = (\<lambda>c. c_service c),
      boto3_version = ''1.35.0'',
      json_dumps = (\<lambda>v. ''<json>''),
      split_documents = (\<lambda>size overlap docs. docs),
      connection_string_from_db_params =
        (\<lambda>driver user password host port database.
           ''postgresql+'' @ fmt driver @ ''://'' @ fmt user @ '':'' @ fmt password @ ''@''
           @ fmt host @ '':'' @ fmt port @ ''/'' @ fmt database)\<rparr>"

definition text_block :: pyval where
  "text_block = PList [PDict [(''text'', PStr ''Use Amazon S3.'')]]"

definition respond_ok :: "nat \<Rightarrow> client \<Rightarrow> string \<Rightarrow> kwargs \<Rightarrow> exn + pyval" where
  "respond_ok n c operation args =
     (if operation = ''get_caller_identity'' then
        Inr (PDict [(''Account'', PStr ''123456789012'')])
      else if operation = ''list_inference_profiles'' then
        Inr (PDict [(''inferenceProfileSummaries'', PList [])])
      else if operation = ''converse'' then
        Inr (PDict [(''output'', PDict [(''message'', PDict [(''content'', text_block)])])])
      else if operation = ''invoke_model'' then
        Inr (PDict [(''body'', PBody (Some (PDict [(''content'', text_block)])))])
      else Inr (PDict []))"

definition chunk :: "string \<Rightarrow> document" where
  "chunk t = \<lparr>page_content = t, metadata = []\<rparr>"

text \<open>What the chain returns in this world.\<close>

definition answer0 :: qa_answer where
  "answer0 =
     \<lparr>ans_result = Some ''An answer.'',
      ans_source_documents = Some [chunk ''a'', chunk ''b'', chunk ''c'']\<rparr>"

text \<open>Every module is installed and every object can be built.\<close>

definition world_ok :: world where
  "world_ok =
     \<lparr>respond = respond_ok,
      chat_invoke = (\<lambda>n m msgs. Inr (PStr ''A poem.'')),
      load_directory = (\<lambda>n path. Inr [chunk ''a'', chunk ''b'', chunk ''c'', chunk ''d'']),
      store_documents = (\<lambda>n emb docs coll conn. Inr ()),
      call_chain = (\<lambda>n chain question. Inr answer0),
      clock = (\<lambda>n. real n),
      import_module = (\<lambda>name. None),
      build_session = (\<lambda>kw. None),
      build_client = (\<lambda>ses service cfg kw. None),
      build_object = (\<lambda>class_name kw. None)\<rparr>"

text \<open>The same world, except that the role and the log group exist already.\<close>

definition world_exists :: world where
  "world_exists =
     world_ok\<lparr>respond := (\<lambda>n c operation args.
        if operation = ''create_role'' then Inl EntityAlreadyExistsException
        else if operation = ''create_log_group'' then Inl ResourceAlreadyExistsException
        else respond_ok n c operation args)\<rparr>"

text \<open>The client of the default runtime flag turned off, in region \<open>eu-west-1\<close>.\<close>

definition client_eu :: client where
  "client_eu =
     \<lparr>c_session = \<lparr>ses_kwargs = [(''region_name'', PStr ''eu-west-1'')]\<rparr>,
      c_service = ''bedrock'',
      c_config = Some \<lparr>cfg_region_name = Some ''eu-west-1'',
                       cfg_retries = Some \<lparr>max_attempts = 10, mode = ''standard''\<rparr>\<rparr>,
      c_kwargs = [(''region_name'', PStr ''eu-west-1'')]\<rparr>"

text \<open>The client of \<open>get_bedrock_client(region='us-east-1', runtime=False)\<close> with no profile set.\<close>

definition client_us :: client where
  "client_us =
     \<lparr>c_session = \<lparr>ses_kwargs = [(''region_name'', PStr ''us-east-1'')]\<rparr>,
      c_service = ''bedrock'',
      c_config = Some \<lparr>cfg_region_name = Some ''us-east-1'',
                       cfg_retries = Some \<lparr>max_attempts = 10, mode = ''standard''\<rparr>\<rparr>,
      c_kwargs = [(''region_name'', PStr ''us-east-1'')]\<rparr>"


definition s0 :: pystate where
  "s0 = \<lparr>environ = Map.empty, sys_stdout = Std 1, filters = [], written = (\<lambda>f. []),
         allocated = 0, ticks = 0, trace = []\<rparr>"

section \<open>Sequencing\<close>

lemma fst_bind:
  "fst (py_bind m f s) = (case fst (m s) of Inl e \<Rightarrow> Inl e | Inr x \<Rightarrow> fst (f x (snd (m s))))"
  by (simp add: py_bind_def split: prod.splits sum.splits)

lemma snd_bind:
  "snd (py_bind m f s) = (case fst (m s) of Inl e \<Rightarrow> snd (m s) | Inr x \<Rightarrow> snd (f x (snd (m s))))"
  by (simp add: py_bind_def split: prod.splits sum.splits)

lemma fst_seq:
  "fst (py_seq m k s) = (case fst (m s) of Inl e \<Rightarrow> Inl e | Inr x \<Rightarrow> fst (k (snd (m s))))"
  by (simp add: py_seq_def fst_bind)

lemma snd_seq:
  "snd (py_seq m k s) = (case fst (m s) of Inl e \<Rightarrow> snd (m s) | Inr x \<Rightarrow> snd (k (snd (m s))))"
  by (simp add: py_seq_def snd_bind)

lemmas run_simps = fst_bind snd_bind fst_seq snd_seq

section \<open>Components that a computation keeps\<close>

lemma keepsD: "keeps g m \<Longrightarrow> g (snd (m s)) = g s"
  by (simp add: keeps_def)

lemma keeps_ret: "keeps g (ret x)" by (simp add: keeps_def ret_def)
lemma keeps_raise: "keeps g (raise e)" by (simp add: keeps_def raise_def)
lemma keeps_lift: "keeps g (lift r)" by (simp add: keeps_def lift_def)

lemma keeps_bind: "keeps g m \<Longrightarrow> (\<And>x. keeps g (f x)) \<Longrightarrow> keeps g (py_bind m f)"
  by (simp add: keeps_def snd_bind split: sum.splits)

lemma keeps_seq: "keeps g m \<Longrightarrow> keeps g k \<Longrightarrow> keeps g (py_seq m k)"
  by (simp add: py_seq_def keeps_bind)

lemma keeps_if: "keeps g a \<Longrightarrow> keeps g b \<Longrightarrow> keeps g (if c then a else b)"
  by simp

lemma keeps_let: "(\<And>x. keeps g (f x)) \<Longrightarrow> keeps g (let x = v in f x)"
  by simp

lemma keeps_get_environ: "keeps g get_environ" by (simp add: keeps_def get_environ_def)
lemma keeps_get_stdout: "keeps g get_stdout" by (simp add: keeps_def get_stdout_def)

text \<open>Imports and constructors leave the state as it is.\<close>

lemma silent_keeps: "silent m \<Longrightarrow> keeps g m"
  by (simp add: silent_def keeps_def)

lemma silent_attempt: "silent (attempt x)"
  by (simp add: silent_def attempt_def lift_def)

lemma silent_then_ret: "silent (py_seq (attempt x) (ret v))"
  by (simp add: silent_def attempt_def lift_def py_seq_def py_bind_def ret_def split: option.splits)

lemma silent_steps:
  "silent (attempt x)"
  "silent (py_import w modules)"
  "silent (construct w class_name kw)"
  "silent (new_session w kw)"
  "silent (session_client w ses service cfg kw)"
  "silent (boto3_client w service kw)"
  "silent (new_chat_model w m)"
  "silent (Bedrock w model_id c model_kwargs)"
  "silent (BedrockEmbeddings w model_id c)"
  "silent (PromptTemplate w template input_variables)"
  "silent (as_retriever w store search_type search_kwargs)"
  "silent (from_chain_type w model chain_type r rsd prompt)"
  unfolding py_import_def construct_def new_session_def session_client_def boto3_client_def
    new_chat_model_def Bedrock_def BedrockEmbeddings_def PromptTemplate_def as_retriever_def
    from_chain_type_def
  by (rule silent_attempt silent_then_ret)+

lemmas keeps_steps = silent_steps [THEN silent_keeps]

lemma fst_attempt: "fst (attempt x s) = (case x of None \<Rightarrow> Inr () | Some e \<Rightarrow> Inl e)"
  by (simp add: attempt_def lift_def)

lemma snd_attempt: "snd (attempt x s) = s"
  by (simp add: attempt_def lift_def)

lemma fst_attempt_ok [simp]: "(fst (attempt x s) = Inr u) = (x = None)"
  by (simp add: fst_attempt split: option.splits)

lemma snd_silent: "silent m \<Longrightarrow> snd (m s) = s"
  by (simp add: silent_def)

lemmas snd_steps [simp] = silent_steps [THEN snd_silent]

text \<open>A constructor that returns hands the object built from its arguments to what follows.\<close>

lemma bind_built: "py_bind (py_seq (attempt x) (ret v)) f = py_seq (attempt x) (f v)"
  by (rule ext)
     (simp add: attempt_def lift_def py_seq_def py_bind_def ret_def split: option.splits)

lemma bind_steps:
  "py_bind (new_session w kw) f = py_seq (attempt (build_session w kw)) (f \<lparr>ses_kwargs = kw\<rparr>)"
  "py_bind (session_client w ses service cfg kw) g =
     py_seq (attempt (build_client w ses service cfg kw))
       (g \<lparr>c_session = ses, c_service = service, c_config = cfg, c_kwargs = kw\<rparr>)"
  "py_bind (boto3_client w service kw) g =
     py_seq (attempt (build_client w \<lparr>ses_kwargs = []\<rparr> service None kw))
       (g (default_client service kw))"
  "py_bind (new_chat_model w m) h = py_seq (construct w (chat_class m) (chat_kwargs m)) (h m)"
  by (simp_all add: new_session_def session_client_def boto3_client_def default_client_def
      new_chat_model_def construct_def bind_built)

lemma bind_objects:
  "py_bind (Bedrock w model_id c model_kwargs) f1 =
     py_seq (construct w ''Bedrock''
               [(''model_id'', PStr model_id), (''model_kwargs'', PDict model_kwargs)])
       (f1 \<lparr>llm_model_id = model_id, llm_client = c, llm_model_kwargs = model_kwargs\<rparr>)"
  "py_bind (BedrockEmbeddings w model_id c) f2 =
     py_seq (construct w ''BedrockEmbeddings'' [(''model_id'', PStr model_id)])
       (f2 \<lparr>emb_model_id = model_id, emb_client = c\<rparr>)"
  "py_bind (PromptTemplate w template input_variables) f3 =
     py_seq (construct w ''PromptTemplate''
               [(''template'', PStr template),
                (''input_variables'', PList (map PStr input_variables))])
       (f3 \<lparr>pt_template = template, pt_input_variables = input_variables\<rparr>)"
  "py_bind (as_retriever w store search_type search_kwargs) f4 =
     py_seq (construct w ''VectorStoreRetriever''
               [(''search_type'', PStr search_type), (''search_kwargs'', PDict search_kwargs)])
       (f4 \<lparr>r_store = store, r_search_type = search_type, r_search_kwargs = search_kwargs\<rparr>)"
  "py_bind (from_chain_type w m chain_type r rsd prompt) f5 =
     py_seq (construct w ''RetrievalQA''
               [(''chain_type'', PStr chain_type), (''return_source_documents'', PBool rsd)])
       (f5 \<lparr>qa_llm = m, qa_chain_type = chain_type, qa_retriever = r,
             qa_return_source_documents = rsd, qa_prompt = prompt\<rparr>)"
  by (simp_all add: Bedrock_def BedrockEmbeddings_def PromptTemplate_def as_retriever_def
      from_chain_type_def construct_def bind_built)

lemma keeps_filterwarnings:
  "keeps trace (filterwarnings a)" "keeps environ (filterwarnings a)"
  "keeps sys_stdout (filterwarnings a)"
  by (simp_all add: keeps_def filterwarnings_def)

lemmas keeps_struct = keeps_ret keeps_raise keeps_lift keeps_bind keeps_seq keeps_if keeps_let
  keeps_get_environ keeps_get_stdout keeps_steps

lemma keeps_print_args:
  assumes "\<And>f t. keeps g (write_to f t)"
  shows "keeps g (print_args f sep b args)"
  by (induction args arbitrary: b) (auto intro!: keeps_struct assms)

lemma keeps_py_print:
  assumes "\<And>f t. keeps g (write_to f t)"
  shows "keeps g (py_print args kw)"
  unfolding py_print_def
  by (auto intro!: keeps_struct keeps_print_args assms)

lemma keeps_print1:
  assumes "\<And>f t. keeps g (write_to f t)"
  shows "keeps g (print1 t)"
  unfolding print1_def by (rule keeps_py_print) (rule assms)

lemma keeps_write_trace: "keeps trace (write_to f t)" by (simp add: keeps_def write_to_def)
lemma keeps_write_environ: "keeps environ (write_to f t)" by (simp add: keeps_def write_to_def)
lemma keeps_write_stdout: "keeps sys_stdout (write_to f t)" by (simp add: keeps_def write_to_def)

lemmas keeps_print =
  keeps_py_print [OF keeps_write_trace] keeps_print1 [OF keeps_write_trace]
  keeps_py_print [OF keeps_write_environ] keeps_print1 [OF keeps_write_environ]
  keeps_py_print [OF keeps_write_stdout] keeps_print1 [OF keeps_write_stdout]

lemma keeps_time: "keeps trace (py_time w)" "keeps environ (py_time w)" "keeps sys_stdout (py_time w)"
  by (simp_all add: keeps_def py_time_def)

lemma keeps_logged: "keeps environ (logged rq tag r)" "keeps sys_stdout (logged rq tag r)"
  by (simp_all add: keeps_def logged_def)

lemma keeps_api: "keeps environ (api w c operation args)" "keeps sys_stdout (api w c operation args)"
  by (simp_all add: keeps_def api_def logged_def)

lemma keeps_set_environ: "keeps trace (set_environ k v)" "keeps sys_stdout (set_environ k v)"
  by (simp_all add: keeps_def set_environ_def)

lemma fst_print_args: "list_all (\<lambda>a. \<not> isl a) args \<Longrightarrow> fst (print_args f sep b args s) = Inr ()"
  by (induction args arbitrary: b s)
     (auto simp: fst_seq fst_bind ret_def write_to_def lift_def split: sum.splits)

lemma fst_py_print_ok:
  "list_all (\<lambda>a. \<not> isl a) args \<Longrightarrow> kw_unknown kw = [] \<Longrightarrow> fst (py_print args kw s) = Inr ()"
  by (simp add: py_print_def fst_bind fst_seq get_stdout_def fst_print_args Let_def
      write_to_def split: sum.splits)

lemma fst_print1 [simp]: "fst (print1 t s) = Inr ()"
  by (simp add: print1_def fst_py_print_ok no_kwargs_def)

lemma trace_print1 [simp]: "trace (snd (print1 t s)) = trace s"
  by (rule keepsD) (rule keeps_print)

lemma environ_print1 [simp]: "environ (snd (print1 t s)) = environ s"
  by (rule keepsD) (rule keeps_print)

lemma stdout_print1 [simp]: "sys_stdout (snd (print1 t s)) = sys_stdout s"
  by (rule keepsD) (rule keeps_print)

section \<open>get_bedrock_client\<close>

lemma keeps_assume_role:
  "keeps environ (assume_role_kwargs w ses role kw)" "keeps sys_stdout (assume_role_kwargs w ses role kw)"
  unfolding assume_role_kwargs_def
  by (auto intro!: keeps_struct keeps_print keeps_api)

lemma keeps_gbc:
  "keeps environ (get_bedrock_client lib w role region runtime sn)"
  "keeps sys_stdout (get_bedrock_client lib w role region runtime sn)"
  unfolding get_bedrock_client_def
  by (auto intro!: keeps_struct keeps_print keeps_assume_role)

lemma assume_role_plain: "\<not> truthy role \<Longrightarrow> assume_role_kwargs w ses role kw = ret kw"
  by (simp add: assume_role_kwargs_def)

lemma keeps_gbc_trace:
  "\<not> truthy role \<Longrightarrow> keeps trace (get_bedrock_client lib w role region runtime sn)"
  unfolding get_bedrock_client_def
  by (auto simp: assume_role_plain intro!: keeps_struct keeps_print)

lemma fst_assume_role:
  "fst (assume_role_kwargs w ses role kw s) = Inr kw' \<Longrightarrow> map_of kw' ''region_name'' = map_of kw ''region_name''"
  by (auto simp: assume_role_kwargs_def bind_steps run_simps ret_def lift_def fst_py_print_ok
      no_kwargs_def map_add_def split: if_splits sum.splits option.splits)

lemma fst_gbc:
  assumes "fst (get_bedrock_client lib w role region runtime sn s) = Inr c"
  shows "c_service c = resolve_service runtime sn"
    and "c_config c = Some \<lparr>cfg_region_name = resolve_region (environ s) region,
                            cfg_retries = Some \<lparr>max_attempts = 10, mode = ''standard''\<rparr>\<rparr>"
    and "map_of (c_kwargs c) ''region_name'' = Some (opt_str (resolve_region (environ s) region))"
  using assms
  by (auto simp: get_bedrock_client_def bind_steps run_simps get_environ_def Let_def ret_def
      split: sum.splits if_splits dest!: fst_assume_role)

lemma fst_gbc_plain:
  assumes "\<not> truthy role"
    and "fst (get_bedrock_client lib w role region runtime sn s) = Inr c"
  shows "c = \<lparr>c_session = \<lparr>ses_kwargs =
              (if truthy (environ s ''AWS_PROFILE'')
               then [(''region_name'', opt_str (resolve_region (environ s) region)),
                     (''profile_name'', opt_str (environ s ''AWS_PROFILE''))]
               else [(''region_name'', opt_str (resolve_region (environ s) region))])\<rparr>,
          c_service = resolve_service runtime sn,
          c_config = Some \<lparr>cfg_region_name = resolve_region (environ s) region,
                           cfg_retries = Some \<lparr>max_attempts = 10, mode = ''standard''\<rparr>\<rparr>,
          c_kwargs = [(''region_name'', opt_str (resolve_region (environ s) region))]\<rparr>"
  using assms
  by (auto simp: get_bedrock_client_def assume_role_plain bind_steps run_simps get_environ_def
      Let_def ret_def split: sum.splits if_splits)

lemma fst_gbc_plain_eq:
  assumes "\<not> truthy role"
  shows "fst (get_bedrock_client lib w role region runtime sn s) =
    (case builds w \<lparr>c_session = \<lparr>ses_kwargs =
              (if truthy (environ s ''AWS_PROFILE'')
               then [(''region_name'', opt_str (resolve_region (environ s) region)),
                     (''profile_name'', opt_str (environ s ''AWS_PROFILE''))]
               else [(''region_name'', opt_str (resolve_region (environ s) region))])\<rparr>,
          c_service = resolve_service runtime sn,
          c_config = Some \<lparr>cfg_region_name = resolve_region (environ s) region,
                           cfg_retries = Some \<lparr>max_attempts = 10, mode = ''standard''\<rparr>\<rparr>,
          c_kwargs = [(''region_name'', opt_str (resolve_region (environ s) region))]\<rparr> of
       Some e \<Rightarrow> Inl e
     | None \<Rightarrow> Inr \<lparr>c_session = \<lparr>ses_kwargs =
              (if truthy (environ s ''AWS_PROFILE'')
               then [(''region_name'', opt_str (resolve_region (environ s) region)),
                     (''profile_name'', opt_str (environ s ''AWS_PROFILE''))]
               else [(''region_name'', opt_str (resolve_region (environ s) region))])\<rparr>,
          c_service = resolve_service runtime sn,
          c_config = Some \<lparr>cfg_region_name = resolve_region (environ s) region,
                           cfg_retries = Some \<lparr>max_attempts = 10, mode = ''standard''\<rparr>\<rparr>,
          c_kwargs = [(''region_name'', opt_str (resolve_region (environ s) region))]\<rparr>)"
  using assms
  by (auto simp: get_bedrock_client_def assume_role_plain bind_steps run_simps get_environ_def
      Let_def ret_def builds_def fst_attempt split: sum.splits if_splits option.splits)

lemma fst_attempt_simps [simp]:
  "fst (attempt None s) = Inr ()" "fst (attempt (Some e) s) = Inl e"
  by (simp_all add: fst_attempt)

lemma gbc_cong:
  assumes "\<not> truthy role" and "build_session w = build_session w'"
    and "build_client w = build_client w'"
  shows "get_bedrock_client lib w role region runtime sn =
         get_bedrock_client lib w' role region runtime sn"
  using assms
  by (simp add: get_bedrock_client_def assume_role_plain new_session_def session_client_def)

lemma fst_gbc_built:
  assumes "\<not> truthy role" and "build_session w = (\<lambda>kw. None)"
    and "build_client w = (\<lambda>ses service cfg kw. None)"
  shows "\<exists>c. fst (get_bedrock_client lib w role region runtime sn s) = Inr c"
  using assms
  by (simp add: get_bedrock_client_def assume_role_plain bind_steps run_simps get_environ_def
      Let_def ret_def fst_attempt)

section \<open>Failures end the run\<close>

lemma no_reattempt_oks:
  "\<forall>e\<in>set oks. \<not> failed e \<Longrightarrow> no_reattempt (oks @ es) = no_reattempt es"
  by (induction oks) auto

lemma handling_ok_oks:
  "\<forall>e\<in>set oks. \<not> failed e \<Longrightarrow> handling_ok r (oks @ es) = handling_ok r es"
proof (induction oks)
  case Nil
  show ?case by simp
next
  case (Cons e oks)
  then have e: "\<not> isl (snd e)" and ih: "handling_ok r (oks @ es) = handling_ok r es"
    by (simp_all add: failed_def)
  from e obtain a where a: "snd e = Inr a" by (cases "snd e") auto
  show ?case
  proof (cases "oks @ es")
    case Nil
    with a ih [symmetric] show ?thesis by simp
  next
    case (Cons e' rest)
    with a ih [symmetric] show ?thesis by simp
  qed
qed

lemma propagatesI:
  assumes "\<And>s. \<exists>oks tl. trace (snd (m s)) = trace s @ oks @ tl \<and> (\<forall>e\<in>set oks. \<not> failed e)
        \<and> (tl = [] \<or> (\<exists>rq x. tl = [(rq, Inl x)] \<and> fst (m s) = Inl x))"
  shows "propagates m"
  using assms by (simp add: propagates_def)

lemma propagates_keeps: "keeps trace m \<Longrightarrow> propagates m"
  by (rule propagatesI) (simp add: keeps_def)

lemma propagates_logged_at:
  assumes "\<And>s. m s = logged rq tag (r s) s"
  shows "propagates m"
proof (rule propagatesI)
  fix s
  show "\<exists>oks tl. trace (snd (m s)) = trace s @ oks @ tl \<and> (\<forall>e\<in>set oks. \<not> failed e)
        \<and> (tl = [] \<or> (\<exists>rq x. tl = [(rq, Inl x)] \<and> fst (m s) = Inl x))"
  proof (cases "r s")
    case (Inl x)
    then have "trace (snd (m s)) = trace s @ [] @ [(rq, Inl x)]" "fst (m s) = Inl x"
      by (simp_all add: assms logged_def)
    then show ?thesis by (metis empty_iff list.set(1))
  next
    case (Inr a)
    then have "trace (snd (m s)) = trace s @ [(rq, Inr (tag a))] @ []"
      by (simp add: assms logged_def)
    moreover have "\<forall>e\<in>set [(rq, Inr (tag a))]. \<not> failed e" by (simp add: failed_def)
    ultimately show ?thesis by blast
  qed
qed

lemma propagates_api: "propagates (api w c operation args)"
  by (rule propagates_logged_at) (rule api_def)

lemma propagates_bind:
  assumes m: "propagates m" and f: "\<And>x. propagates (f x)"
  shows "propagates (py_bind m f)"
proof (rule propagatesI)
  fix s
  from m obtain oks tl where 1: "trace (snd (m s)) = trace s @ oks @ tl"
    and 2: "\<forall>e\<in>set oks. \<not> failed e"
    and 3: "tl = [] \<or> (\<exists>rq x. tl = [(rq, Inl x)] \<and> fst (m s) = Inl x)"
    unfolding propagates_def by blast
  show "\<exists>oks tl. trace (snd (py_bind m f s)) = trace s @ oks @ tl \<and> (\<forall>e\<in>set oks. \<not> failed e)
        \<and> (tl = [] \<or> (\<exists>rq x. tl = [(rq, Inl x)] \<and> fst (py_bind m f s) = Inl x))"
  proof (cases "fst (m s)")
    case (Inl e)
    then have "snd (py_bind m f s) = snd (m s)" "fst (py_bind m f s) = Inl e"
      by (simp_all add: run_simps)
    with 1 2 3 Inl show ?thesis by (metis sum.inject(1))
  next
    case (Inr x)
    with 3 have tl: "tl = []" by auto
    from f [of x] obtain oks' tl' where
      4: "trace (snd (f x (snd (m s)))) = trace (snd (m s)) @ oks' @ tl'"
      and 5: "\<forall>e\<in>set oks'. \<not> failed e"
      and 6: "tl' = [] \<or> (\<exists>rq y. tl' = [(rq, Inl y)] \<and> fst (f x (snd (m s))) = Inl y)"
      unfolding propagates_def by blast
    from Inr have eq: "snd (py_bind m f s) = snd (f x (snd (m s)))"
      "fst (py_bind m f s) = fst (f x (snd (m s)))"
      by (simp_all add: run_simps)
    have "trace (snd (py_bind m f s)) = trace s @ (oks @ oks') @ tl'"
      using 1 4 tl eq by simp
    moreover have "\<forall>e\<in>set (oks @ oks'). \<not> failed e" using 2 5 by auto
    ultimately show ?thesis using 6 eq by metis
  qed
qed

lemma propagates_seq: "propagates m \<Longrightarrow> propagates k \<Longrightarrow> propagates (py_seq m k)"
  by (simp add: py_seq_def propagates_bind)

lemma propagates_if: "propagates a \<Longrightarrow> propagates b \<Longrightarrow> propagates (if c then a else b)"
  by simp

lemma propagates_let: "(\<And>x. propagates (f x)) \<Longrightarrow> propagates (let x = v in f x)"
  by simp

lemma propagates_prod: "(\<And>a b c. propagates (f a b c)) \<Longrightarrow> propagates (case p of (a, b, c) \<Rightarrow> f a b c)"
  by (cases p) auto

lemma propagates_prod2: "(\<And>a b. propagates (f a b)) \<Longrightarrow> propagates (case p of (a, b) \<Rightarrow> f a b)"
  by (cases p) auto

lemmas propagates_silent =
  keeps_ret [THEN propagates_keeps] keeps_raise [THEN propagates_keeps]
  keeps_lift [THEN propagates_keeps] keeps_get_environ [THEN propagates_keeps]
  keeps_print(1) [THEN propagates_keeps] keeps_print(2) [THEN propagates_keeps]
  keeps_time(1) [THEN propagates_keeps] keeps_set_environ(1) [THEN propagates_keeps]
  keeps_filterwarnings(1) [THEN propagates_keeps] keeps_steps [THEN propagates_keeps]

lemmas propagates_struct =
  propagates_bind propagates_seq propagates_if propagates_let propagates_prod propagates_prod2
  propagates_silent propagates_api

lemma propagates_gbc: "propagates (get_bedrock_client lib w role region runtime sn)"
  unfolding get_bedrock_client_def assume_role_kwargs_def
  by (intro propagates_struct)

lemma propagates_converse_loop: "propagates (converse_loop lib w rt xs)"
proof (induction xs)
  case Nil
  show ?case unfolding converse_loop.simps by (intro propagates_struct)
next
  case (Cons x xs)
  obtain a b where x: "x = (a, b)" by (cases x)
  show ?case unfolding x converse_loop.simps converse_def
    by (intro propagates_struct Cons)
qed

lemma propagates_invoke_loop: "propagates (invoke_loop lib w rt body xs)"
proof (induction xs)
  case Nil
  show ?case unfolding invoke_loop.simps by (intro propagates_struct)
next
  case (Cons x xs)
  obtain a b where x: "x = (a, b)" by (cases x)
  show ?case unfolding x invoke_loop.simps
    by (intro propagates_struct Cons)
qed

lemma propagates_invoke_chat: "propagates (invoke_chat w m msgs)"
  by (rule propagates_logged_at) (rule invoke_chat_def)

lemma propagates_cells:
  "propagates (cell3 w)"
  "propagates (cell4 lib w)" "propagates (cell5 lib w)" "propagates (cell7 lib w)"
  "propagates (cell9 w bc)" "propagates (cell11 w bc)" "propagates (cell15 lib w rt)"
  "propagates (cell17 lib w acct rt)" "propagates (cell19 lib w rt)"
  "propagates (cell23 lib w rt)" "propagates (cell25 lib w rt)"
  "propagates (cell27 lib w rt)" "propagates (cell29 lib w rt)" "propagates (cell33 w logs)"
  unfolding cell3_def cell4_def cell5_def cell7_def cell9_def cell11_def cell15_def cell17_def
    cell19_def cell23_def cell25_def cell27_def cell29_def cell33_def converse_def
  by (intro propagates_struct propagates_gbc propagates_converse_loop
      propagates_invoke_loop propagates_invoke_chat)+

section \<open>Handled failures\<close>

lemma well_handledI:
  assumes "\<And>s. \<exists>new. trace (snd (m s)) = trace s @ new \<and> no_reattempt new
        \<and> handling_ok (raised (fst (m s))) new"
  shows "well_handled m"
  using assms by (simp add: well_handled_def)

lemma propagates_well_handled:
  assumes "propagates m"
  shows "well_handled m"
proof (rule well_handledI)
  fix s
  from assms obtain oks tl where 1: "trace (snd (m s)) = trace s @ oks @ tl"
    and 2: "\<forall>e\<in>set oks. \<not> failed e"
    and 3: "tl = [] \<or> (\<exists>rq x. tl = [(rq, Inl x)] \<and> fst (m s) = Inl x)"
    unfolding propagates_def by blast
  from 3 have "no_reattempt tl \<and> handling_ok (raised (fst (m s))) tl"
    by (auto simp: raised_def)
  with 2 have "no_reattempt (oks @ tl) \<and> handling_ok (raised (fst (m s))) (oks @ tl)"
    by (simp add: no_reattempt_oks handling_ok_oks)
  with 1 show "\<exists>new. trace (snd (m s)) = trace s @ new \<and> no_reattempt new
        \<and> handling_ok (raised (fst (m s))) new"
    by blast
qed

lemma well_handled_bind:
  assumes m: "propagates m" and f: "\<And>x. well_handled (f x)"
  shows "well_handled (py_bind m f)"
proof (rule well_handledI)
  fix s
  from m obtain oks tl where 1: "trace (snd (m s)) = trace s @ oks @ tl"
    and 2: "\<forall>e\<in>set oks. \<not> failed e"
    and 3: "tl = [] \<or> (\<exists>rq x. tl = [(rq, Inl x)] \<and> fst (m s) = Inl x)"
    unfolding propagates_def by blast
  show "\<exists>new. trace (snd (py_bind m f s)) = trace s @ new \<and> no_reattempt new
        \<and> handling_ok (raised (fst (py_bind m f s))) new"
  proof (cases "fst (m s)")
    case (Inl e)
    then have eq: "snd (py_bind m f s) = snd (m s)"
      "raised (fst (py_bind m f s)) = raised (fst (m s))"
      by (simp_all add: run_simps raised_def)
    from propagates_well_handled [OF m] show ?thesis
      unfolding well_handled_def eq by blast
  next
    case (Inr x)
    with 3 have tl: "tl = []" by auto
    from f [of x] obtain new where
      4: "trace (snd (f x (snd (m s)))) = trace (snd (m s)) @ new"
      and 5: "no_reattempt new"
      and 6: "handling_ok (raised (fst (f x (snd (m s))))) new"
      unfolding well_handled_def by blast
    from Inr have eq: "snd (py_bind m f s) = snd (f x (snd (m s)))"
      "fst (py_bind m f s) = fst (f x (snd (m s)))"
      by (simp_all add: run_simps)
    have "trace (snd (py_bind m f s)) = trace s @ (oks @ new)"
      using 1 4 tl eq by simp
    moreover have "no_reattempt (oks @ new)" using 2 5 by (simp add: no_reattempt_oks)
    moreover have "handling_ok (raised (fst (py_bind m f s))) (oks @ new)"
      using 2 6 eq by (simp add: handling_ok_oks)
    ultimately show ?thesis by blast
  qed
qed

lemma well_handled_seq: "propagates m \<Longrightarrow> well_handled k \<Longrightarrow> well_handled (py_seq m k)"
  by (simp add: py_seq_def well_handled_bind)

lemma well_handled_prod:
  "(\<And>a b c. well_handled (f a b c)) \<Longrightarrow> well_handled (case p of (a, b, c) \<Rightarrow> f a b c)"
  by (cases p) auto

lemma avoids_keeps: "keeps trace m \<Longrightarrow> avoids rq m"
  by (simp add: avoids_def keeps_def)

lemma avoids_api: "operation \<noteq> operation' \<Longrightarrow> avoids (Api c' operation' args') (api w c operation args)"
  by (simp add: avoids_def api_def logged_def)

lemma avoids_bind:
  assumes m: "avoids rq m" and f: "\<And>x. avoids rq (f x)"
  shows "avoids rq (py_bind m f)"
  unfolding avoids_def
proof
  fix s
  from m obtain new where 1: "trace (snd (m s)) = trace s @ new" and 2: "rq \<notin> set (map fst new)"
    unfolding avoids_def by blast
  show "\<exists>new. trace (snd (py_bind m f s)) = trace s @ new \<and> rq \<notin> set (map fst new)"
  proof (cases "fst (m s)")
    case (Inl e)
    then have "snd (py_bind m f s) = snd (m s)" by (simp add: run_simps)
    with 1 2 show ?thesis by auto
  next
    case (Inr x)
    from f [of x] obtain new' where 3: "trace (snd (f x (snd (m s)))) = trace (snd (m s)) @ new'"
      and 4: "rq \<notin> set (map fst new')"
      unfolding avoids_def by blast
    from Inr have "snd (py_bind m f s) = snd (f x (snd (m s)))" by (simp add: run_simps)
    with 1 3 have "trace (snd (py_bind m f s)) = trace s @ (new @ new')" by simp
    moreover from 2 4 have "rq \<notin> set (map fst (new @ new'))" by auto
    ultimately show ?thesis by blast
  qed
qed

lemma avoids_seq: "avoids rq m \<Longrightarrow> avoids rq k \<Longrightarrow> avoids rq (py_seq m k)"
  by (simp add: py_seq_def avoids_bind)

lemma snd_try_except_pass: "snd (try_except_pass m E s) = snd (m s)"
  by (simp add: try_except_pass_def split: prod.splits sum.splits)

lemma fst_try_except_pass:
  "fst (try_except_pass m E s) =
     (case fst (m s) of Inl e \<Rightarrow> if e = E then Inr () else Inl e | Inr x \<Rightarrow> Inr x)"
  by (simp add: try_except_pass_def split: prod.splits sum.splits)

lemma avoids_try: "avoids rq m \<Longrightarrow> avoids rq (try_except_pass m E)"
  by (simp add: avoids_def snd_try_except_pass)

lemmas avoids_struct = avoids_bind avoids_seq avoids_try
  keeps_ret [THEN avoids_keeps] keeps_lift [THEN avoids_keeps]
  keeps_print(1) [THEN avoids_keeps] keeps_print(2) [THEN avoids_keeps]
  keeps_steps [THEN avoids_keeps]

lemma py_seq_assoc: "py_seq (py_seq a b) c = py_seq a (py_seq b c)"
  by (rule ext) (simp add: py_seq_def py_bind_def split: prod.splits sum.splits)

lemma py_seq_bind: "py_seq (py_bind m f) c = py_bind m (\<lambda>x. py_seq (f x) c)"
  by (rule ext) (simp add: py_seq_def py_bind_def split: prod.splits sum.splits)

lemma py_bind_seq: "py_bind (py_seq a b) f = py_seq a (py_bind b f)"
  by (rule ext) (simp add: py_seq_def py_bind_def split: prod.splits sum.splits)

lemma py_bind_assoc: "py_bind (py_bind m g) f = py_bind m (\<lambda>x. py_bind (g x) f)"
  by (rule ext) (simp add: py_bind_def split: prod.splits sum.splits)

lemma py_bind_ret: "py_bind (ret v) f = f v"
  by (rule ext) (simp add: py_bind_def ret_def)

lemma handling_ok_Cons:
  "handling_ok r (e # es) =
     (case snd e of Inr _ \<Rightarrow> handling_ok r es
      | Inl x \<Rightarrow> if es = [] then caught e \<or> r = Some x else caught e \<and> handling_ok r es)"
  by (cases es) (auto split: sum.splits)

lemma well_handled_caught:
  assumes c: "caught (Api c operation args, Inl E)"
    and k: "well_handled k"
    and a: "avoids (Api c operation args) k"
  shows "well_handled (py_seq (try_except_pass (py_bind (api w c operation args) (\<lambda>r. ret ())) E) k)"
proof (rule well_handledI)
  fix s :: pystate
  let ?rq = "Api c operation args"
  let ?r = "respond w (length (trace s)) c operation args"
  let ?t = "try_except_pass (py_bind (api w c operation args) (\<lambda>r. ret ())) E"
  let ?m = "py_seq ?t k"
  have tr: "trace (snd (?t s)) = trace s @ [(?rq, map_sum id Value ?r)]"
    by (simp add: snd_try_except_pass snd_bind api_def logged_def ret_def split: sum.splits)
  have res: "fst (?t s) = (case ?r of Inl e \<Rightarrow> if e = E then Inr () else Inl e | Inr x \<Rightarrow> Inr ())"
    by (simp add: fst_try_except_pass fst_bind api_def logged_def ret_def split: sum.splits)
  show "\<exists>new. trace (snd (?m s)) = trace s @ new \<and> no_reattempt new
        \<and> handling_ok (raised (fst (?m s))) new"
  proof (cases "fst (?t s)")
    case (Inl e)
    with res have r: "?r = Inl e" by (auto split: sum.splits if_splits)
    from Inl have "snd (?m s) = snd (?t s)" "raised (fst (?m s)) = Some e"
      by (simp_all add: run_simps raised_def)
    with tr r have "trace (snd (?m s)) = trace s @ [(?rq, Inl e)]"
      "no_reattempt [(?rq, Inl e)]" "handling_ok (raised (fst (?m s))) [(?rq, Inl e)]"
      by simp_all
    then show ?thesis by blast
  next
    case (Inr u)
    from k obtain new where 1: "trace (snd (k (snd (?t s)))) = trace (snd (?t s)) @ new"
      and 2: "no_reattempt new" and 3: "handling_ok (raised (fst (k (snd (?t s))))) new"
      unfolding well_handled_def by blast
    from a obtain new' where 4: "trace (snd (k (snd (?t s)))) = trace (snd (?t s)) @ new'"
      and 5: "?rq \<notin> set (map fst new')"
      unfolding avoids_def by blast
    from 1 4 have "new' = new" by simp
    with 5 have 6: "?rq \<notin> set (map fst new)" by simp
    from Inr have eq: "snd (?m s) = snd (k (snd (?t s)))" "fst (?m s) = fst (k (snd (?t s)))"
      by (simp_all add: run_simps)
    let ?e = "(?rq, map_sum id Value ?r)"
    have "trace (snd (?m s)) = trace s @ (?e # new)"
      using eq 1 tr by simp
    moreover have "no_reattempt (?e # new)" using 2 6 by simp
    moreover have "handling_ok (raised (fst (?m s))) (?e # new)"
    proof (cases ?r)
      case (Inl e)
      with Inr res have "e = E" by (auto split: if_splits)
      with Inl c 3 eq show ?thesis by (simp add: handling_ok_Cons)
    next
      case (Inr v)
      with 3 eq show ?thesis by (simp add: handling_ok_Cons)
    qed
    ultimately show ?thesis by blast
  qed
qed

lemma caught_create_role:
  "caught (Api (default_client ''iam'' [(''region_name'', PStr region_name)]) ''create_role'' args,
           Inl EntityAlreadyExistsException)"
  by (simp add: iam_client_def)

lemma caught_create_log_group:
  "caught (Api (default_client ''logs'' [(''region_name'', PStr region_name)]) ''create_log_group'' args,
           Inl ResourceAlreadyExistsException)"
  by (simp add: logs_client_def)

lemma neq_ops:
  "''put_role_policy'' \<noteq> ''create_role''" "''create_log_group'' \<noteq> ''create_role''"
  "''put_retention_policy'' \<noteq> ''create_role''"
  "''put_model_invocation_logging_configuration'' \<noteq> ''create_role''"
  "''put_metric_filter'' \<noteq> ''create_role''"
  "''put_retention_policy'' \<noteq> ''create_log_group''"
  "''put_model_invocation_logging_configuration'' \<noteq> ''create_log_group''"
  "''put_metric_filter'' \<noteq> ''create_log_group''"
  by simp_all

lemma well_handled_logging: "well_handled (py_bind (cell31 lib w acct bc) (cell33 w))"
  unfolding cell31_def cell33_def create_role_def create_log_group_def py_import_def
    bind_steps py_seq_assoc py_seq_bind py_bind_seq py_bind_assoc py_bind_ret
  by (intro well_handled_caught caught_create_role caught_create_log_group
      well_handled_bind well_handled_seq propagates_struct
      propagates_well_handled avoids_struct avoids_api neq_ops)

lemma well_handled_cross_region: "well_handled (cross_region_notebook lib w)"
  unfolding cross_region_notebook_def
  by (intro well_handled_seq well_handled_bind well_handled_prod propagates_cells
      well_handled_logging)

lemma propagates_rag_ops:
  "propagates (load_documents w path)" "propagates (call_qa w chain question)"
  by (rule propagates_logged_at, rule load_documents_def call_qa_def)+

lemma propagates_from_documents: "propagates (from_documents w emb docs coll conn)"
proof -
  have "propagates (py_bind (\<lambda>s. logged (FromDocuments emb docs coll conn) (\<lambda>_. Done)
          (store_documents w (length (trace s)) emb docs coll conn) s)
          (\<lambda>_. ret \<lparr>collection_name = coll, connection_string = conn, embedding_function = emb\<rparr>))"
    by (intro propagates_struct
        propagates_logged_at [where r = "\<lambda>s. store_documents w (length (trace s)) emb docs coll conn"
          and rq = "FromDocuments emb docs coll conn" and tag = "\<lambda>_. Done"]
        refl)
  also have "py_bind (\<lambda>s. logged (FromDocuments emb docs coll conn) (\<lambda>_. Done)
          (store_documents w (length (trace s)) emb docs coll conn) s)
          (\<lambda>_. ret \<lparr>collection_name = coll, connection_string = conn, embedding_function = emb\<rparr>)
        = from_documents w emb docs coll conn"
    by (rule ext) (simp add: from_documents_def py_seq_def py_bind_def)
  finally show ?thesis .
qed

lemma propagates_rag: "propagates (rag_notebook lib w)"
  unfolding rag_notebook_def rag_cell6_def rag_cell8_def rag_cell9_def rag_cell10_def rag_cell12_def
  by (intro propagates_struct propagates_rag_ops propagates_from_documents)

lemma new_events_append: "trace s' = trace s @ new \<Longrightarrow> new_events s s' = new"
  by (simp add: new_events_def)

lemma well_handledD:
  assumes "well_handled m"
  shows "no_reattempt (new_events s (snd (m s)))"
    and "handling_ok (raised (fst (m s))) (new_events s (snd (m s)))"
proof -
  from assms obtain new where "trace (snd (m s)) = trace s @ new" "no_reattempt new"
    "handling_ok (raised (fst (m s))) new"
    unfolding well_handled_def by blast
  then show "no_reattempt (new_events s (snd (m s)))"
    and "handling_ok (raised (fst (m s))) (new_events s (snd (m s)))"
    by (simp_all add: new_events_append)
qed

section \<open>print_ww\<close>

lemma keeps_print_wrapped: "keeps sys_stdout (print_wrapped lib width ls)"
proof (induction ls)
  case Nil
  show ?case unfolding print_wrapped.simps by (rule keeps_ret)
next
  case (Cons l ls)
  show ?case unfolding print_wrapped.simps
    by (intro keeps_struct keeps_print Cons)
qed


lemma stdout_try_finally_set:
  "sys_stdout (snd (try_finally body (set_stdout f) s)) = f"
  by (simp add: try_finally_def set_stdout_def split: prod.splits sum.splits)

lemma print_ww_stdout: "sys_stdout (snd (print_ww lib args width kwargs s)) = sys_stdout s"
proof -
  let ?s1 = "snd (new_StringIO s)"
  let ?buffer = "StringIO (allocated s)"
  let ?body = "try_finally
          (py_seq (set_stdout ?buffer) (py_seq (py_print args kwargs) (getvalue ?buffer)))
          (set_stdout (sys_stdout s))"
  have s1: "sys_stdout ?s1 = sys_stdout s" by (simp add: new_StringIO_def)
  have unfold: "print_ww lib args width kwargs s =
      py_bind ?body (\<lambda>output. print_wrapped lib width (splitlines lib output)) ?s1"
    by (simp add: print_ww_def py_bind_def new_StringIO_def get_stdout_def)
  have body: "sys_stdout (snd (?body ?s1)) = sys_stdout s"
    by (rule stdout_try_finally_set)
  show ?thesis
    unfolding unfold snd_bind
    by (cases "fst (?body ?s1)") (simp_all add: body keepsD [OF keeps_print_wrapped])
qed

section \<open>The requests of each cell\<close>

lemma fst_api: "fst (api w c operation args s) = respond w (length (trace s)) c operation args"
  by (simp add: api_def logged_def)

lemma trace_api:
  "map fst (trace (snd (api w c operation args s))) = map fst (trace s) @ [Api c operation args]"
  by (simp add: api_def logged_def)

lemma fst_invoke_chat: "fst (invoke_chat w m msgs s) = chat_invoke w (length (trace s)) m msgs"
  by (simp add: invoke_chat_def logged_def)

lemma trace_invoke_chat:
  "map fst (trace (snd (invoke_chat w m msgs s))) = map fst (trace s) @ [ChatInvoke m msgs]"
  by (simp add: invoke_chat_def logged_def)

lemma fst_time: "fst (py_time w s) = Inr (clock w (ticks s))"
  by (simp add: py_time_def)

lemma trace_time: "trace (snd (py_time w s)) = trace s"
  by (simp add: py_time_def)

lemma fst_lift: "fst (lift r s) = r" by (simp add: lift_def)
lemma snd_lift: "snd (lift r s) = s" by (simp add: lift_def)
lemma fst_ret: "fst (ret x s) = Inr x" by (simp add: ret_def)
lemma snd_ret: "snd (ret x s) = s" by (simp add: ret_def)

lemma fst_set_environ: "fst (set_environ k v s) = Inr ()" by (simp add: set_environ_def)
lemma trace_set_environ: "trace (snd (set_environ k v s)) = trace s" by (simp add: set_environ_def)
lemma environ_set_environ: "environ (snd (set_environ k v s)) = (environ s)(k \<mapsto> v)"
  by (simp add: set_environ_def)

lemma fst_filterwarnings: "fst (filterwarnings a s) = Inr ()" by (simp add: filterwarnings_def)
lemma trace_filterwarnings: "trace (snd (filterwarnings a s)) = trace s"
  by (simp add: filterwarnings_def)
lemma environ_filterwarnings: "environ (snd (filterwarnings a s)) = environ s"
  by (simp add: filterwarnings_def)

lemma environ_api: "environ (snd (api w c operation args s)) = environ s"
  by (simp add: api_def logged_def)

lemma trace_py_print: "trace (snd (py_print args kw s)) = trace s"
  by (rule keepsD) (rule keeps_print)

lemma fst_gbc_notebook:
  "environ s ''AWS_PROFILE'' = Some ''profile_acct_4'' \<Longrightarrow>
   fst (get_bedrock_client lib w None (Some ''us-east-1'') runtime sn s)
     = (case builds w (notebook_client (resolve_service runtime sn)) of
          Some e \<Rightarrow> Inl e
        | None \<Rightarrow> Inr (notebook_client (resolve_service runtime sn)))"
  by (simp add: fst_gbc_plain_eq notebook_client_def resolve_region_def split: option.splits)

lemma trace_gbc: "trace (snd (get_bedrock_client lib w None region runtime sn s)) = trace s"
  by (rule keepsD) (simp add: keeps_gbc_trace)

lemma environ_gbc: "environ (snd (get_bedrock_client lib w role region runtime sn s)) = environ s"
  by (rule keepsD) (rule keeps_gbc)

lemmas step_simps = run_simps fst_api trace_api fst_invoke_chat trace_invoke_chat fst_time trace_time
  fst_lift snd_lift fst_ret snd_ret fst_set_environ trace_set_environ environ_set_environ
  fst_filterwarnings trace_filterwarnings environ_filterwarnings
  environ_api trace_py_print fst_gbc_notebook trace_gbc environ_gbc bind_steps

lemma cell3_requests: "trace (snd (cell3 w s)) = trace s"
  by (rule keepsD) (simp add: cell3_def keeps_struct keeps_filterwarnings)

lemma cell4_requests:
  "fst (cell4 lib w s) = Inr u \<Longrightarrow>
   map fst (trace (snd (cell4 lib w s))) =
     map fst (trace s) @ [Api (notebook_client ''bedrock'') ''list_foundation_models'' []]"
  by (simp add: cell4_def step_simps resolve_service_def split: sum.split_asm option.split_asm)

lemma cell5_requests: "trace (snd (cell5 lib w s)) = trace s"
  by (rule keepsD) (simp add: cell5_def keeps_struct keeps_print)

lemma cell7_requests:
  "fst (cell7 lib w s) = Inr x \<Longrightarrow>
   map fst (trace (snd (cell7 lib w s))) =
     map fst (trace s) @ [Api (notebook_client ''sts'') ''get_caller_identity'' []]
   \<and> snd x = (notebook_client ''bedrock'', notebook_client ''bedrock-runtime'')"
  by (auto simp add: cell7_def step_simps resolve_service_def region_name_def
      split: sum.split_asm option.split_asm)

lemma cell9_requests:
  "map fst (trace (snd (cell9 w bc s))) =
     map fst (trace s) @ [Api bc ''list_inference_profiles'' []]"
  by (simp add: cell9_def step_simps split: sum.splits)

lemma cell11_requests:
  "map fst (trace (snd (cell11 w bc s))) =
     map fst (trace s) @ [Api bc ''get_inference_profile''
        [(''inferenceProfileIdentifier'', PStr ''us.anthropic.claude-3-5-sonnet-20240620-v1:0'')]]"
  by (simp add: cell11_def step_simps split: sum.splits)

lemma cell15_requests:
  "fst (cell15 lib w rt s) = Inr () \<Longrightarrow>
   map fst (trace (snd (cell15 lib w rt s))) = map fst (trace s) @
     [Api rt ''converse'' (converse_kwargs ''anthropic.claude-3-haiku-20240307-v1:0''),
      Api rt ''converse'' (converse_kwargs ''us.anthropic.claude-3-haiku-20240307-v1:0'')]"
  by (simp add: cell15_def converse_def step_simps split: sum.split_asm)

lemma cell17_requests:
  "map fst (trace (snd (cell17 lib w acct rt s))) = map fst (trace s) @
     [Api rt ''converse'' (converse_kwargs (inference_profile_arn lib acct))]"
  by (simp add: cell17_def converse_def step_simps split: sum.splits)

lemma cell19_requests:
  "fst (cell19 lib w rt s) = Inr () \<Longrightarrow>
   map fst (trace (snd (cell19 lib w rt s))) = map fst (trace s) @
     [Api rt ''invoke_model''
        (invoke_model_kwargs (json_dumps lib (anthropic_body system_prompt input_message))
           ''anthropic.claude-3-sonnet-20240229-v1:0''),
      Api rt ''invoke_model''
        (invoke_model_kwargs (json_dumps lib (anthropic_body system_prompt input_message))
           ''us.anthropic.claude-3-sonnet-20240229-v1:0'')]"
  by (simp add: cell19_def step_simps split: sum.split_asm)

lemma chat_cells_requests:
  "fst (cell23 lib w rt s) = Inr () \<Longrightarrow> map fst (trace (snd (cell23 lib w rt s))) =
     map fst (trace s) @ [ChatInvoke (sonnet_converse_chat rt) poetic_messages]"
  "fst (cell25 lib w rt s) = Inr () \<Longrightarrow> map fst (trace (snd (cell25 lib w rt s))) =
     map fst (trace s) @ [ChatInvoke (sonnet_chat rt) poetic_messages]"
  "fst (cell27 lib w rt s) = Inr () \<Longrightarrow> map fst (trace (snd (cell27 lib w rt s))) =
     map fst (trace s) @ [ChatInvoke (haiku_chat rt) poetic_messages]"
  "fst (cell29 lib w rt s) = Inr () \<Longrightarrow> map fst (trace (snd (cell29 lib w rt s))) =
     map fst (trace s) @ [ChatInvoke (haiku_chat rt) (poetic_body lib)]"
  by (simp_all add: cell23_def cell25_def cell27_def cell29_def step_simps split: sum.split_asm)

lemma cell31_requests:
  "fst (cell31 lib w acct bc s) = Inr c \<Longrightarrow>
   map fst (trace (snd (cell31 lib w acct bc s))) = map fst (trace s) @
     [Api iam_client ''create_role'' (create_role_kwargs lib acct),
      Api iam_client ''put_role_policy'' (put_role_policy_kwargs lib acct),
      Api logs_client ''create_log_group'' create_log_group_kwargs,
      Api logs_client ''put_retention_policy'' put_retention_policy_kwargs,
      Api bc ''put_model_invocation_logging_configuration''
        (logging_configuration_kwargs lib acct)]
   \<and> c = logs_client"
  by (simp add: cell31_def create_role_def create_log_group_def step_simps
      iam_client_def logs_client_def
      fst_try_except_pass snd_try_except_pass split: sum.split_asm if_split_asm)

lemma cell33_requests:
  "map fst (trace (snd (cell33 w logs s))) =
     map fst (trace s) @ [Api logs ''put_metric_filter'' put_metric_filter_kwargs]"
  by (simp add: cell33_def step_simps split: sum.splits)

lemma cell7_trace:
  "\<not> isl (fst (cell7 lib w s)) \<Longrightarrow>
   map fst (trace (snd (cell7 lib w s))) =
     map fst (trace s) @ [Api (notebook_client ''sts'') ''get_caller_identity'' []]"
  using cell7_requests [of lib w s] by (cases "fst (cell7 lib w s)") auto

lemma cell7_clients:
  "fst (cell7 lib w s) = Inr x \<Longrightarrow>
   fst (snd x) = notebook_client ''bedrock'' \<and> snd (snd x) = notebook_client ''bedrock-runtime''"
  using cell7_requests [of lib w s x] by simp

lemma cell31_trace:
  "fst (cell31 lib w acct bc s) = Inr c \<Longrightarrow>
   map fst (trace (snd (cell31 lib w acct bc s))) = map fst (trace s) @
     [Api iam_client ''create_role'' (create_role_kwargs lib acct),
      Api iam_client ''put_role_policy'' (put_role_policy_kwargs lib acct),
      Api logs_client ''create_log_group'' create_log_group_kwargs,
      Api logs_client ''put_retention_policy'' put_retention_policy_kwargs,
      Api bc ''put_model_invocation_logging_configuration''
        (logging_configuration_kwargs lib acct)]"
  and cell31_client: "fst (cell31 lib w acct bc s) = Inr c \<Longrightarrow> c = logs_client"
  using cell31_requests [of lib w acct bc s c] by simp_all

lemmas cell_requests = cell3_requests cell4_requests cell5_requests cell7_trace cell9_requests
  cell11_requests cell15_requests cell17_requests cell19_requests chat_cells_requests
  cell31_trace cell33_requests

lemma notebook_requests:
  "fst (cross_region_notebook lib w s) = Inr u \<Longrightarrow>
   \<exists>account_id. map fst (trace (snd (cross_region_notebook lib w s))) =
     map fst (trace s) @ requests_of_run lib account_id"
  apply (simp add: cross_region_notebook_def run_simps split_beta split: sum.split_asm)
  subgoal for x c
    apply (frule cell7_clients)
    apply (frule cell31_client)
    apply (rule exI [of _ "fst x"])
    apply (simp add: cell_requests requests_of_run_def)
    done
  done

lemma calls_requests_of_run:
  "map call_summary (requests_of_run lib account_id) =
     [(''bedrock'', ''list_foundation_models'', None),
      (''sts'', ''get_caller_identity'', None),
      (''bedrock'', ''list_inference_profiles'', None),
      (''bedrock'', ''get_inference_profile'', None),
      (''bedrock-runtime'', ''converse'', Some (PStr ''anthropic.claude-3-haiku-20240307-v1:0'')),
      (''bedrock-runtime'', ''converse'', Some (PStr ''us.anthropic.claude-3-haiku-20240307-v1:0'')),
      (''bedrock-runtime'', ''converse'', Some (PStr (inference_profile_arn lib account_id))),
      (''bedrock-runtime'', ''invoke_model'', Some (PStr ''anthropic.claude-3-sonnet-20240229-v1:0'')),
      (''bedrock-runtime'', ''invoke_model'', Some (PStr ''us.anthropic.claude-3-sonnet-20240229-v1:0'')),
      (''ChatBedrockConverse'', ''invoke'', Some (PStr ''us.anthropic.claude-3-sonnet-20240229-v1:0'')),
      (''ChatBedrock'', ''invoke'', Some (PStr ''us.anthropic.claude-3-sonnet-20240229-v1:0'')),
      (''ChatBedrock'', ''invoke'', Some (PStr ''us.anthropic.claude-3-haiku-20240307-v1:0'')),
      (''ChatBedrock'', ''invoke'', Some (PStr ''us.anthropic.claude-3-haiku-20240307-v1:0'')),
      (''iam'', ''create_role'', None),
      (''iam'', ''put_role_policy'', None),
      (''logs'', ''create_log_group'', None),
      (''logs'', ''put_retention_policy'', None),
      (''bedrock'', ''put_model_invocation_logging_configuration'', None),
      (''logs'', ''put_metric_filter'', None)]"
  by (simp add: requests_of_run_def notebook_client_def iam_client_def logs_client_def
      default_client_def converse_kwargs_def invoke_model_kwargs_def sonnet_converse_chat_def
      sonnet_chat_def haiku_chat_def create_role_kwargs_def put_role_policy_kwargs_def
      create_log_group_kwargs_def put_retention_policy_kwargs_def
      logging_configuration_kwargs_def put_metric_filter_kwargs_def)

lemma writes_requests_of_run:
  "filter resource_write (requests_of_run lib account_id) =
     [Api iam_client ''create_role'' (create_role_kwargs lib account_id),
      Api iam_client ''put_role_policy'' (put_role_policy_kwargs lib account_id),
      Api logs_client ''create_log_group'' create_log_group_kwargs,
      Api logs_client ''put_retention_policy'' put_retention_policy_kwargs,
      Api logs_client ''put_metric_filter'' put_metric_filter_kwargs]"
  by (simp add: requests_of_run_def notebook_client_def iam_client_def logs_client_def
      default_client_def)

lemma map_fst_new_events:
  "map fst (trace s') = map fst (trace s) @ rqs \<Longrightarrow> map fst (new_events s s') = rqs"
  by (simp add: new_events_def drop_map [symmetric])

section \<open>Runs in the example worlds\<close>

lemma respond_world_ok: "respond world_ok = respond_ok"
  by (simp add: world_ok_def)

lemma respond_world_exists:
  "respond world_exists n c operation args =
     (if operation = ''create_role'' then Inl EntityAlreadyExistsException
      else if operation = ''create_log_group'' then Inl ResourceAlreadyExistsException
      else respond_ok n c operation args)"
  by (simp add: world_exists_def)

lemma chat_world: "chat_invoke world_ok n m msgs = Inr (PStr ''A poem.'')"
  "chat_invoke world_exists n m msgs = Inr (PStr ''A poem.'')"
  by (simp_all add: world_exists_def world_ok_def)

lemma first_failure_none: "first_failure (map (\<lambda>name. None) modules) = None"
  by (induction modules) simp_all

lemma installed:
  "fst (py_import world_ok modules s) = Inr ()"
  "fst (py_import world_exists modules s) = Inr ()"
  "fst (construct world_ok class_name kw s) = Inr ()"
  "fst (construct world_exists class_name kw s) = Inr ()"
  "build_client world_ok ses service cfg kw = None"
  "build_client world_exists ses service cfg kw = None"
  "builds world_ok c = None"
  "builds world_exists c = None"
  by (simp_all add: py_import_def construct_def builds_def world_exists_def world_ok_def
      first_failure_none)

lemmas world_simps = respond_world_ok respond_world_exists chat_world respond_ok_def text_block_def
  installed

lemma cells_ok:
  "fst (cell3 world_ok s) = Inr ()"
  "fst (cell4 lib world_ok s) = Inr ()"
  "fst (cell5 lib world_ok s) = Inr ()"
  "fst (cell7 lib world_ok s) =
     Inr (PStr ''123456789012'', notebook_client ''bedrock'', notebook_client ''bedrock-runtime'')"
  "fst (cell9 world_ok bc s) = Inr ()"
  "fst (cell11 world_ok bc s) = Inr ()"
  "fst (cell15 lib world_ok rt s) = Inr ()"
  "fst (cell17 lib world_ok acct rt s) = Inr ()"
  "fst (cell19 lib world_ok rt s) = Inr ()"
  "fst (cell23 lib world_ok rt s) = Inr ()"
  "fst (cell25 lib world_ok rt s) = Inr ()"
  "fst (cell27 lib world_ok rt s) = Inr ()"
  "fst (cell29 lib world_ok rt s) = Inr ()"
  "fst (cell31 lib world_ok acct bc s) = Inr logs_client"
  "fst (cell33 world_ok logs s) = Inr ()"
  by (simp_all add: cell3_def logs_client_def cell4_def cell5_def cell7_def cell9_def cell11_def cell15_def cell17_def
      cell19_def cell23_def cell25_def cell27_def cell29_def cell31_def cell33_def converse_def
      create_role_def create_log_group_def fst_try_except_pass snd_try_except_pass
      step_simps world_simps resolve_service_def region_name_def fst_py_print_ok no_kwargs_def)

lemma cells_exists:
  "fst (cell3 world_exists s) = Inr ()"
  "fst (cell4 lib world_exists s) = Inr ()"
  "fst (cell5 lib world_exists s) = Inr ()"
  "fst (cell7 lib world_exists s) =
     Inr (PStr ''123456789012'', notebook_client ''bedrock'', notebook_client ''bedrock-runtime'')"
  "fst (cell9 world_exists bc s) = Inr ()"
  "fst (cell11 world_exists bc s) = Inr ()"
  "fst (cell15 lib world_exists rt s) = Inr ()"
  "fst (cell17 lib world_exists acct rt s) = Inr ()"
  "fst (cell19 lib world_exists rt s) = Inr ()"
  "fst (cell23 lib world_exists rt s) = Inr ()"
  "fst (cell25 lib world_exists rt s) = Inr ()"
  "fst (cell27 lib world_exists rt s) = Inr ()"
  "fst (cell29 lib world_exists rt s) = Inr ()"
  "fst (cell31 lib world_exists acct bc s) = Inr logs_client"
  "fst (cell33 world_exists logs s) = Inr ()"
  by (simp_all add: cell3_def logs_client_def cell4_def cell5_def cell7_def cell9_def cell11_def cell15_def cell17_def
      cell19_def cell23_def cell25_def cell27_def cell29_def cell31_def cell33_def converse_def
      create_role_def create_log_group_def fst_try_except_pass snd_try_except_pass
      step_simps world_simps resolve_service_def region_name_def fst_py_print_ok no_kwargs_def)

lemma notebook_ok: "fst (cross_region_notebook lib world_ok s) = Inr ()"
  by (simp add: cross_region_notebook_def run_simps cells_ok)

lemma notebook_exists: "fst (cross_region_notebook lib world_exists s) = Inr ()"
  by (simp add: cross_region_notebook_def run_simps cells_exists)

lemma notebook_ok_requests:
  "map fst (new_events s (snd (cross_region_notebook lib world_ok s))) =
     requests_of_run lib (PStr ''123456789012'')"
  by (rule map_fst_new_events)
     (simp add: cross_region_notebook_def run_simps cells_ok cell_requests requests_of_run_def)

lemma notebook_exists_requests:
  "map fst (new_events s (snd (cross_region_notebook lib world_exists s))) =
     requests_of_run lib (PStr ''123456789012'')"
  by (rule map_fst_new_events)
     (simp add: cross_region_notebook_def run_simps cells_exists cell_requests
        requests_of_run_def)

lemma cell31_exists_events:
  "new_events s (snd (cell31 lib world_exists acct bc s)) =
     [(Api iam_client ''create_role'' (create_role_kwargs lib acct),
         Inl EntityAlreadyExistsException),
      (Api iam_client ''put_role_policy'' (put_role_policy_kwargs lib acct),
         Inr (Value (PDict []))),
      (Api logs_client ''create_log_group'' create_log_group_kwargs,
         Inl ResourceAlreadyExistsException),
      (Api logs_client ''put_retention_policy'' put_retention_policy_kwargs,
         Inr (Value (PDict []))),
      (Api bc ''put_model_invocation_logging_configuration''
         (logging_configuration_kwargs lib acct), Inr (Value (PDict [])))]"
  by (simp add: new_events_def cell31_def create_role_def create_log_group_def api_def logged_def
      bind_steps iam_client_def logs_client_def attempt_def lift_def py_import_def
      first_failure_none world_exists_def world_ok_def respond_ok_def
      py_bind_def py_seq_def try_except_pass_def ret_def)

section \<open>The question-answering run\<close>

lemma fst_rag_ops:
  "fst (load_documents w path s) = load_directory w (length (trace s)) path"
  "fst (call_qa w chain question s) = call_chain w (length (trace s)) chain question"
  "fst (from_documents w emb docs coll conn s) =
     map_sum id (\<lambda>_. \<lparr>collection_name = coll, connection_string = conn, embedding_function = emb\<rparr>)
       (store_documents w (length (trace s)) emb docs coll conn)"
  by (simp_all add: load_documents_def call_qa_def from_documents_def logged_def
      py_seq_def py_bind_def ret_def split: sum.splits)

lemma trace_rag_ops:
  "trace (snd (load_documents w path s)) =
     trace s @ [(LoadDirectory path, map_sum id Documents (load_directory w (length (trace s)) path))]"
  "trace (snd (call_qa w chain question s)) =
     trace s @ [(CallChain chain question,
                 map_sum id Answer (call_chain w (length (trace s)) chain question))]"
  "trace (snd (from_documents w emb docs coll conn s)) =
     trace s @ [(FromDocuments emb docs coll conn,
                 map_sum id (\<lambda>_. Done) (store_documents w (length (trace s)) emb docs coll conn))]"
  by (simp_all add: load_documents_def call_qa_def from_documents_def logged_def
      py_seq_def py_bind_def ret_def split: sum.splits)

lemma environ_rag_ops:
  "environ (snd (load_documents w path s)) = environ s"
  "environ (snd (call_qa w chain question s)) = environ s"
  "environ (snd (from_documents w emb docs coll conn s)) = environ s"
  by (simp_all add: load_documents_def call_qa_def from_documents_def logged_def
      py_seq_def py_bind_def ret_def split: sum.splits)

lemma fst_get_environ: "fst (get_environ s) = Inr (environ s)" by (simp add: get_environ_def)
lemma snd_get_environ: "snd (get_environ s) = s" by (simp add: get_environ_def)

lemmas rag_simps = run_simps bind_steps bind_objects fst_rag_ops trace_rag_ops environ_rag_ops
  fst_get_environ snd_get_environ fst_lift snd_lift fst_ret snd_ret
  fst_set_environ trace_set_environ environ_set_environ

lemma fst_boto3_client:
  "fst (boto3_client w service kw s) =
     (case build_client w \<lparr>ses_kwargs = []\<rparr> service None kw of
        None \<Rightarrow> Inr (default_client service kw)
      | Some e \<Rightarrow> Inl e)"
  by (simp add: boto3_client_def session_client_def default_client_def run_simps fst_attempt
      ret_def split: option.splits)

lemma map_sum_Inr_iff: "(map_sum id f r = Inr x) = (\<exists>y. r = Inr y \<and> x = f y)"
  by (cases r) auto

lemma rag_cell6_run:
  "fst (rag_cell6 w s) = Inr c \<Longrightarrow> c = boto3_bedrock"
  "snd (rag_cell6 w s) = s"
  by (simp_all add: rag_cell6_def rag_simps fst_boto3_client boto3_bedrock_def
      split: sum.split_asm sum.splits option.split_asm)

lemma rag_cell8_run:
  assumes "fst (rag_cell8 w c s) = Inr x"
  shows "x = (\<lparr>llm_model_id = ''anthropic.claude-v2'', llm_client = c,
                llm_model_kwargs = [(''max_tokens_to_sample'', PInt 200)]\<rparr>,
              \<lparr>emb_model_id = ''amazon.titan-embed-text-v1'', emb_client = c\<rparr>)"
    and "trace (snd (rag_cell8 w c s)) = trace s"
    and "environ (snd (rag_cell8 w c s)) =
     (environ s)(''PGVECTOR_DRIVER'' \<mapsto> ''psycopg2'',
                 ''PGVECTOR_USER'' \<mapsto> ''<<postgres user>>'',
                 ''PGVECTOR_PASSWORD'' \<mapsto> ''<<password>>'',
                 ''PGVECTOR_HOST'' \<mapsto> ''<<host endpoint>>'',
                 ''PGVECTOR_PORT'' \<mapsto> ''5432'',
                 ''PGVECTOR_DATABASE'' \<mapsto> ''<<database name>>'')"
  using assms
  by (simp_all add: rag_cell8_def rag_simps split: sum.split_asm)

lemma rag_cell9_run:
  assumes "fst (rag_cell9 lib w s) = Inr x"
  shows "\<exists>documents. trace (snd (rag_cell9 lib w s)) =
            trace s @ [(LoadDirectory ''./data/'', Inr (Documents documents))]
          \<and> x = (connection_string_from_db_params lib
                  (environ s ''PGVECTOR_DRIVER'') (environ s ''PGVECTOR_USER'')
                  (environ s ''PGVECTOR_PASSWORD'') (environ s ''PGVECTOR_HOST'')
                  (environ s ''PGVECTOR_PORT'') (environ s ''PGVECTOR_DATABASE''),
                 split_documents lib 1000 0 documents)"
  using assms
  by (simp add: rag_cell9_def rag_simps Let_def split: sum.split_asm)

lemma rag_cell10_run:
  assumes "fst (rag_cell10 lib w emb conn docs s) = Inr x"
  shows "trace (snd (rag_cell10 lib w emb conn docs s)) =
            trace s @ [(FromDocuments emb docs ''tbl_store_embedding'' conn, Inr Done)]
          \<and> x = \<lparr>collection_name = ''tbl_store_embedding'', connection_string = conn,
                  embedding_function = emb\<rparr>"
  using assms
  by (auto simp add: rag_cell10_def rag_simps map_sum_Inr_iff split: sum.split_asm)

lemma rag_cell12_run:
  assumes "fst (rag_cell12 lib w m store s) = Inr (answer, sources)"
  shows "trace (snd (rag_cell12 lib w m store s)) =
           trace s @ [(CallChain \<lparr>qa_llm = m, qa_chain_type = ''stuff'',
                        qa_retriever = \<lparr>r_store = store, r_search_type = ''similarity'',
                                         r_search_kwargs = [(''k'', PInt 3)]\<rparr>,
                        qa_return_source_documents = True,
                        qa_prompt = PROMPT\<rparr> query, Inr (Answer answer))]
         \<and> ans_source_documents answer = Some sources \<and> ans_result answer \<noteq> None"
  using assms
  by (auto simp add: rag_cell12_def rag_simps PROMPT_def answer_item_def
      split: sum.split_asm option.split_asm)

lemma rag_run_shape:
  assumes "fst (rag_notebook lib w s) = Inr (answer, sources)"
  shows "\<exists>documents.
      new_events s (snd (rag_notebook lib w s)) =
        [(LoadDirectory ''./data/'', Inr (Documents documents)),
         (FromDocuments bedrock_embeddings (split_documents lib 1000 0 documents)
            ''tbl_store_embedding'' (pg_connection lib), Inr Done),
         (CallChain (qa (pg_store lib)) query, Inr (Answer answer))]
      \<and> ans_source_documents answer = Some sources \<and> ans_result answer \<noteq> None"
proof -
  from assms obtain c where 6: "fst (rag_cell6 w s) = Inr c"
    and r6: "fst (py_bind (rag_cell8 w c) (\<lambda>(llm, bedrock_embeddings).
       py_bind (rag_cell9 lib w) (\<lambda>(connection_string, docs).
       py_bind (rag_cell10 lib w bedrock_embeddings connection_string docs) (\<lambda>db.
       rag_cell12 lib w llm db))) s) = Inr (answer, sources)"
    and s6: "snd (rag_notebook lib w s) = snd (py_bind (rag_cell8 w c) (\<lambda>(llm, bedrock_embeddings).
       py_bind (rag_cell9 lib w) (\<lambda>(connection_string, docs).
       py_bind (rag_cell10 lib w bedrock_embeddings connection_string docs) (\<lambda>db.
       rag_cell12 lib w llm db))) s)"
    by (auto simp: rag_notebook_def run_simps rag_cell6_run(2) split: sum.split_asm)
  have c: "c = boto3_bedrock" using 6 by (rule rag_cell6_run)
  let ?s8 = "snd (rag_cell8 w c s)"
  from r6 obtain x8 where 8: "fst (rag_cell8 w c s) = Inr x8"
    by (auto simp: run_simps split: sum.split_asm)
  note f8 = rag_cell8_run [OF 8]
  have x8: "x8 = (llm, bedrock_embeddings)"
    using f8(1) by (simp add: llm_def bedrock_embeddings_def c)
  let ?k9 = "py_bind (rag_cell9 lib w) (\<lambda>(connection_string, docs).
       py_bind (rag_cell10 lib w bedrock_embeddings connection_string docs) (\<lambda>db.
       rag_cell12 lib w llm db))"
  have r8: "fst (?k9 ?s8) = Inr (answer, sources)"
    and s8: "snd (rag_notebook lib w s) = snd (?k9 ?s8)"
    using r6 s6 8 by (simp_all add: run_simps x8)
  let ?s9 = "snd (rag_cell9 lib w ?s8)"
  from r8 obtain x9 where 9: "fst (rag_cell9 lib w ?s8) = Inr x9"
    by (auto simp: run_simps split: sum.split_asm)
  from rag_cell9_run [OF 9] obtain documents where
    t9: "trace ?s9 = trace ?s8 @ [(LoadDirectory ''./data/'', Inr (Documents documents))]"
    and x9: "x9 = (pg_connection lib, split_documents lib 1000 0 documents)"
    by (auto simp: f8(3) pg_connection_def)
  let ?docs = "split_documents lib 1000 0 documents"
  let ?k10 = "py_bind (rag_cell10 lib w bedrock_embeddings (pg_connection lib) ?docs) (\<lambda>db.
       rag_cell12 lib w llm db)"
  have r9: "fst (?k10 ?s9) = Inr (answer, sources)"
    and s9: "snd (rag_notebook lib w s) = snd (?k10 ?s9)"
    using r8 s8 9 by (simp_all add: run_simps x9)
  let ?s10 = "snd (rag_cell10 lib w bedrock_embeddings (pg_connection lib) ?docs ?s9)"
  from r9 obtain x10 where
    10: "fst (rag_cell10 lib w bedrock_embeddings (pg_connection lib) ?docs ?s9) = Inr x10"
    by (auto simp: run_simps split: sum.split_asm)
  from rag_cell10_run [OF 10] have
    t10: "trace ?s10 = trace ?s9 @ [(FromDocuments bedrock_embeddings ?docs
             ''tbl_store_embedding'' (pg_connection lib), Inr Done)]"
    and x10: "x10 = pg_store lib"
    by (simp_all add: pg_store_def)
  have r10: "fst (rag_cell12 lib w llm (pg_store lib) ?s10) = Inr (answer, sources)"
    and s10: "snd (rag_notebook lib w s) = snd (rag_cell12 lib w llm (pg_store lib) ?s10)"
    using r9 s9 10 by (simp_all add: run_simps x10)
  from rag_cell12_run [OF r10] have
    t12: "trace (snd (rag_cell12 lib w llm (pg_store lib) ?s10)) =
            trace ?s10 @ [(CallChain (qa (pg_store lib)) query, Inr (Answer answer))]"
    and a: "ans_source_documents answer = Some sources" "ans_result answer \<noteq> None"
    by (simp_all add: qa_def)
  have "trace (snd (rag_notebook lib w s)) = trace s @
        [(LoadDirectory ''./data/'', Inr (Documents documents)),
         (FromDocuments bedrock_embeddings ?docs ''tbl_store_embedding'' (pg_connection lib),
            Inr Done),
         (CallChain (qa (pg_store lib)) query, Inr (Answer answer))]"
    by (simp add: s10 t12 t10 t9 f8(2))
  then show ?thesis using a by (auto simp: new_events_def)
qed

section \<open>What the runs leave unchanged\<close>























subsection \<open>The environment after the question-answering notebook\<close>





lemma rag_completed:
  "fst (rag_notebook lib w s) = Inr y \<Longrightarrow>
   \<exists>c x. fst (rag_cell6 w s) = Inr c \<and> fst (rag_cell8 w c s) = Inr x"
  by (auto simp: rag_notebook_def run_simps rag_cell6_run(2) split: sum.split_asm)


subsection \<open>The environment and the warning filters after the cross-region notebook\<close>









lemma cross_region_completed:
  "fst (cross_region_notebook lib w s) = Inr u \<Longrightarrow> \<not> isl (fst (cell3 w s))"
  by (auto simp: cross_region_notebook_def fst_seq split: sum.split_asm)

section \<open>Failures in the world where the role and the log group exist\<close>

lemma isl_map_sum: "isl (map_sum f g r) = isl r"
  by (cases r) simp_all

lemma failed_api:
  "map failed (trace (snd (api w c operation args s))) =
     map failed (trace s) @ [isl (respond w (length (trace s)) c operation args)]"
  by (simp add: api_def logged_def failed_def isl_map_sum)

lemma failed_invoke_chat:
  "map failed (trace (snd (invoke_chat w m msgs s))) =
     map failed (trace s) @ [isl (chat_invoke w (length (trace s)) m msgs)]"
  by (simp add: invoke_chat_def logged_def failed_def isl_map_sum)

lemmas failed_simps = run_simps fst_api failed_api fst_invoke_chat failed_invoke_chat fst_time
  trace_time fst_lift snd_lift fst_ret snd_ret fst_set_environ trace_set_environ
  environ_set_environ environ_api trace_py_print fst_gbc_notebook trace_gbc environ_gbc
  bind_steps fst_filterwarnings trace_filterwarnings environ_filterwarnings

lemma cells_exists_failed:
  "map failed (trace (snd (cell3 world_exists s))) = map failed (trace s)"
  "map failed (trace (snd (cell5 lib world_exists s))) = map failed (trace s)"
  "map failed (trace (snd (cell4 lib world_exists s))) = map failed (trace s) @ [False]"
  "map failed (trace (snd (cell7 lib world_exists s))) = map failed (trace s) @ [False]"
  "map failed (trace (snd (cell9 world_exists bc s))) = map failed (trace s) @ [False]"
  "map failed (trace (snd (cell11 world_exists bc s))) = map failed (trace s) @ [False]"
  "map failed (trace (snd (cell15 lib world_exists rt s))) = map failed (trace s) @ [False, False]"
  "map failed (trace (snd (cell17 lib world_exists acct rt s))) = map failed (trace s) @ [False]"
  "map failed (trace (snd (cell19 lib world_exists rt s))) = map failed (trace s) @ [False, False]"
  "map failed (trace (snd (cell23 lib world_exists rt s))) = map failed (trace s) @ [False]"
  "map failed (trace (snd (cell25 lib world_exists rt s))) = map failed (trace s) @ [False]"
  "map failed (trace (snd (cell27 lib world_exists rt s))) = map failed (trace s) @ [False]"
  "map failed (trace (snd (cell29 lib world_exists rt s))) = map failed (trace s) @ [False]"
  "map failed (trace (snd (cell31 lib world_exists acct bc s))) =
     map failed (trace s) @ [True, False, True, False, False]"
  "map failed (trace (snd (cell33 world_exists logs s))) = map failed (trace s) @ [False]"
  by (simp_all add: cell3_def cell3_requests cell5_requests cell4_def cell5_def cell7_def cell9_def cell11_def cell15_def cell17_def
      cell19_def cell23_def cell25_def cell27_def cell29_def cell31_def cell33_def converse_def
      create_role_def create_log_group_def fst_try_except_pass snd_try_except_pass
      failed_simps world_simps resolve_service_def region_name_def fst_py_print_ok no_kwargs_def)

lemma map_new_events:
  "map f (trace s') = map f (trace s) @ xs \<Longrightarrow> map f (new_events s s') = xs"
  by (simp add: new_events_def drop_map [symmetric])

lemma notebook_exists_failed:
  "map failed (new_events s (snd (cross_region_notebook lib world_exists s))) =
     [False, False, False, False, False, False, False, False, False, False, False, False, False,
      True, False, True, False, False, False]"
  by (rule map_new_events)
     (simp add: cross_region_notebook_def run_simps cells_exists cells_exists_failed)

section \<open>The question-answering run in the example worlds\<close>

lemma world_ok_rag:
  "load_directory world_ok n path = Inr [chunk ''a'', chunk ''b'', chunk ''c'', chunk ''d'']"
  "store_documents world_ok n emb docs coll conn = Inr ()"
  "call_chain world_ok n chain question = Inr answer0"
  by (simp_all add: world_ok_def)

lemma rag_cells_ok:
  "fst (rag_cell6 world_ok s) = Inr boto3_bedrock"
  "fst (rag_cell8 world_ok c s) =
     Inr (\<lparr>llm_model_id = ''anthropic.claude-v2'', llm_client = c,
            llm_model_kwargs = [(''max_tokens_to_sample'', PInt 200)]\<rparr>,
          \<lparr>emb_model_id = ''amazon.titan-embed-text-v1'', emb_client = c\<rparr>)"
  "fst (rag_cell9 lib world_ok s) =
     Inr (connection_string_from_db_params lib
            (environ s ''PGVECTOR_DRIVER'') (environ s ''PGVECTOR_USER'')
            (environ s ''PGVECTOR_PASSWORD'') (environ s ''PGVECTOR_HOST'')
            (environ s ''PGVECTOR_PORT'') (environ s ''PGVECTOR_DATABASE''),
          split_documents lib 1000 0 [chunk ''a'', chunk ''b'', chunk ''c'', chunk ''d''])"
  "fst (rag_cell10 lib world_ok emb conn docs s) =
     Inr \<lparr>collection_name = ''tbl_store_embedding'', connection_string = conn,
          embedding_function = emb\<rparr>"
  "fst (rag_cell12 lib world_ok m store s) = Inr (answer0, [chunk ''a'', chunk ''b'', chunk ''c''])"
  by (simp_all add: rag_cell6_def rag_cell8_def rag_cell9_def rag_cell10_def
      rag_cell12_def rag_simps fst_boto3_client boto3_bedrock_def Let_def world_ok_rag
      installed answer_item_def answer0_def)

lemma rag_ok:
  "fst (rag_notebook lib world_ok s) = Inr (answer0, [chunk ''a'', chunk ''b'', chunk ''c''])"
  by (simp add: rag_notebook_def run_simps rag_cells_ok)



section \<open>Summaries of the run of the cross-region notebook\<close>

lemma calls_map: "calls es = map call_summary (map fst es)"
  by (simp add: calls_def)

lemma model_ids_map:
  "model_ids operation es =
     map (\<lambda>c. snd (snd c))
       (filter (\<lambda>c. fst c = ''bedrock-runtime'' \<and> fst (snd c) = operation)
          (map call_summary (map fst es)))"
  by (simp add: model_ids_def calls_map)

lemma arn_lib0:
  "inference_profile_arn lib0 (PStr ''123456789012'') =
     ''arn:aws:bedrock:us-east-1:123456789012:inference-profile/us.anthropic.claude-3-sonnet-20240229-v1:0''"
  by (simp add: inference_profile_arn_def format_value_def region_name_def)

lemma converse_ids_ok:
  "model_ids ''converse'' (new_events s (snd (cross_region_notebook lib world_ok s))) =
     [Some (PStr ''anthropic.claude-3-haiku-20240307-v1:0''),
      Some (PStr ''us.anthropic.claude-3-haiku-20240307-v1:0''),
      Some (PStr (inference_profile_arn lib (PStr ''123456789012'')))]"
  by (simp add: model_ids_map notebook_ok_requests calls_requests_of_run)

lemma fst_gbc_s0:
  "builds w client_us = None \<Longrightarrow>
   fst (get_bedrock_client lib w None (Some ''us-east-1'') (Some False) None s0) = Inr client_us"
  by (simp add: fst_gbc_plain_eq resolve_region_def resolve_service_def s0_def client_us_def)

section \<open>Further facts on print_ww\<close>



section \<open>Requests are made one at a time\<close>



















section \<open>The claims\<close>

text \<open>
  C1, as stated: no client is configured to retry failed requests. This fails: the client
  that \<open>get_bedrock_client(region='us-east-1', runtime=False)\<close> returns carries the
  configuration \<open>retries={"max_attempts": 10, "mode": "standard"}\<close>.
\<close>

theorem no_retry_configuration_counterexample:
  "fst (get_bedrock_client lib0 world_ok None (Some ''us-east-1'') (Some False) None s0)
     = Inr client_us
   \<and> client_retries client_us = Some \<lparr>max_attempts = 10, mode = ''standard''\<rparr>"
  by (simp add: fst_gbc_s0 installed) (simp add: client_us_def client_retries_def)

text \<open>
  C1, amended: every client that \<open>get_bedrock_client\<close> returns is configured to retry
  failed requests (mode \<open>standard\<close>, at most 10 attempts); the clients built directly with
  \<open>boto3.client\<close> are given no retry configuration; and no call site makes a failed
  request again, in any run of either notebook.
\<close>

theorem retries_in_client_configuration_only:
  "(get_bedrock_client lib w assumed_role region runtime service_name s = (Inr c, s')
      \<longrightarrow> client_retries c = Some \<lparr>max_attempts = 10, mode = ''standard''\<rparr>)
   \<and> client_retries iam_client = None
   \<and> client_retries logs_client = None
   \<and> client_retries boto3_bedrock = None
   \<and> no_reattempt (new_events s (snd (cross_region_notebook lib w s)))
   \<and> no_reattempt (new_events s (snd (rag_notebook lib w s)))"
proof -
  have "client_retries c = Some \<lparr>max_attempts = 10, mode = ''standard''\<rparr>"
    if "get_bedrock_client lib w assumed_role region runtime service_name s = (Inr c, s')"
  proof -
    from that have "fst (get_bedrock_client lib w assumed_role region runtime service_name s) = Inr c"
      by simp
    from fst_gbc(2) [OF this] show ?thesis by (simp add: client_retries_def)
  qed
  moreover have "client_retries iam_client = None" "client_retries logs_client = None"
    "client_retries boto3_bedrock = None"
    by (simp_all add: client_retries_def iam_client_def logs_client_def boto3_bedrock_def
        default_client_def)
  moreover note well_handledD(1) [OF well_handled_cross_region, of s lib w]
    well_handledD(1) [OF propagates_well_handled [OF propagates_rag], of s lib w]
  ultimately show ?thesis by blast
qed

theorem retries_in_client_configuration_only_witness:
  "fst (get_bedrock_client lib0 world_exists None (Some ''us-east-1'') (Some False) None s0)
     = Inr client_us
   \<and> client_retries client_us = Some \<lparr>max_attempts = 10, mode = ''standard''\<rparr>
   \<and> map failed (new_events s0 (snd (cross_region_notebook lib0 world_exists s0))) =
       [False, False, False, False, False, False, False, False, False, False, False, False,
        False, True, False, True, False, False, False]
   \<and> no_reattempt (new_events s0 (snd (cross_region_notebook lib0 world_exists s0)))
   \<and> no_reattempt (new_events s0 (snd (rag_notebook lib0 world_exists s0)))"
proof -
  let ?g = "get_bedrock_client lib0 world_exists None (Some ''us-east-1'') (Some False) None s0"
  have ok: "fst ?g = Inr client_us"
    by (simp add: fst_gbc_s0 installed)
  then have run: "?g = (Inr client_us, snd ?g)"
    by (metis prod.collapse)
  from retries_in_client_configuration_only
    [of lib0 world_exists None "Some ''us-east-1''" "Some False" None s0 client_us "snd ?g"] run
  show ?thesis
    by (simp add: ok notebook_exists_failed)
qed

text \<open>
  C2, as stated: no exception raised by an external call is caught or suppressed. This
  fails in cell 31: when \<open>create_role\<close> raises \<open>EntityAlreadyExistsException\<close> the cell goes on
  and completes, and so does the notebook.
\<close>

theorem exception_suppressed_counterexample:
  "new_events s0 (snd (cell31 lib0 world_exists (PStr ''123456789012'')
                         (notebook_client ''bedrock'') s0)) ! 0
     = (Api iam_client ''create_role'' (create_role_kwargs lib0 (PStr ''123456789012'')),
        Inl EntityAlreadyExistsException)
   \<and> fst (cell31 lib0 world_exists (PStr ''123456789012'') (notebook_client ''bedrock'') s0)
       = Inr logs_client
   \<and> fst (cross_region_notebook lib0 world_exists s0) = Inr ()"
  by (simp add: cell31_exists_events cells_exists notebook_exists)

text \<open>
  C2, amended: an exception raised by an external call ends the run and is the exception
  the run leaves with, except for the two that cell 31 of the cross-region notebook
  catches and suppresses: \<open>EntityAlreadyExistsException\<close> from \<open>create_role\<close> of the IAM client
  and \<open>ResourceAlreadyExistsException\<close> from \<open>create_log_group\<close> of the logs client.
\<close>

theorem exceptions_propagate_unless_handled:
  "handling_ok (raised (fst (cross_region_notebook lib w s)))
     (new_events s (snd (cross_region_notebook lib w s)))
   \<and> handling_ok (raised (fst (rag_notebook lib w s)))
       (new_events s (snd (rag_notebook lib w s)))"
  using well_handledD(2) [OF well_handled_cross_region, of lib w s]
    well_handledD(2) [OF propagates_well_handled [OF propagates_rag], of lib w s]
  by simp

theorem exceptions_propagate_unless_handled_witness:
  "map failed (new_events s0 (snd (cross_region_notebook lib0 world_exists s0))) =
     [False, False, False, False, False, False, False, False, False, False, False, False,
      False, True, False, True, False, False, False]
   \<and> raised (fst (cross_region_notebook lib0 world_exists s0)) = None
   \<and> handling_ok None (new_events s0 (snd (cross_region_notebook lib0 world_exists s0)))
   \<and> handling_ok (raised (fst (rag_notebook lib0 world_exists s0)))
       (new_events s0 (snd (rag_notebook lib0 world_exists s0)))"
  using exceptions_propagate_unless_handled [of lib0 world_exists s0]
  by (simp add: notebook_exists_failed notebook_exists raised_def)



text \<open>
  C4, as stated: each of the two APIs is called once with a foundation-model identifier
  and once with an inference-profile identifier. This fails for the Converse API: after
  the two calls of the loop of cell 15, cell 17 calls it a third time, with the ARN of an
  inference profile.
\<close>

theorem converse_called_three_times_counterexample:
  "model_ids ''converse'' (new_events s0 (snd (cross_region_notebook lib0 world_ok s0))) =
     [Some (PStr ''anthropic.claude-3-haiku-20240307-v1:0''),
      Some (PStr ''us.anthropic.claude-3-haiku-20240307-v1:0''),
      Some (PStr ''arn:aws:bedrock:us-east-1:123456789012:inference-profile/us.anthropic.claude-3-sonnet-20240229-v1:0'')]"
  by (simp add: converse_ids_ok arn_lib0)

text \<open>
  C4, amended: a run of the cross-region notebook that completes makes these requests, in
  this order: it lists the foundation models, asks for the caller identity, lists the
  inference profiles and gets one of them; it calls the Converse API with a
  foundation-model identifier, with an inference-profile identifier and with the ARN of an
  inference profile; it calls the InvokeModel API with a foundation-model identifier and
  with an inference-profile identifier; it invokes four LangChain chat models with
  inference-profile identifiers; and afterwards it creates the role and the log group and
  configures the invocation logging and the metric filter.
\<close>

theorem cross_region_call_sequence:
  assumes "cross_region_notebook lib w s = (Inr u, s')"
  shows "\<exists>account_id. calls (new_events s s') =
     [(''bedrock'', ''list_foundation_models'', None),
      (''sts'', ''get_caller_identity'', None),
      (''bedrock'', ''list_inference_profiles'', None),
      (''bedrock'', ''get_inference_profile'', None),
      (''bedrock-runtime'', ''converse'', Some (PStr ''anthropic.claude-3-haiku-20240307-v1:0'')),
      (''bedrock-runtime'', ''converse'', Some (PStr ''us.anthropic.claude-3-haiku-20240307-v1:0'')),
      (''bedrock-runtime'', ''converse'', Some (PStr (inference_profile_arn lib account_id))),
      (''bedrock-runtime'', ''invoke_model'', Some (PStr ''anthropic.claude-3-sonnet-20240229-v1:0'')),
      (''bedrock-runtime'', ''invoke_model'', Some (PStr ''us.anthropic.claude-3-sonnet-20240229-v1:0'')),
      (''ChatBedrockConverse'', ''invoke'', Some (PStr ''us.anthropic.claude-3-sonnet-20240229-v1:0'')),
      (''ChatBedrock'', ''invoke'', Some (PStr ''us.anthropic.claude-3-sonnet-20240229-v1:0'')),
      (''ChatBedrock'', ''invoke'', Some (PStr ''us.anthropic.claude-3-haiku-20240307-v1:0'')),
      (''ChatBedrock'', ''invoke'', Some (PStr ''us.anthropic.claude-3-haiku-20240307-v1:0'')),
      (''iam'', ''create_role'', None),
      (''iam'', ''put_role_policy'', None),
      (''logs'', ''create_log_group'', None),
      (''logs'', ''put_retention_policy'', None),
      (''bedrock'', ''put_model_invocation_logging_configuration'', None),
      (''logs'', ''put_metric_filter'', None)]"
proof -
  from assms have ok: "fst (cross_region_notebook lib w s) = Inr u"
    and s': "s' = snd (cross_region_notebook lib w s)"
    by simp_all
  from notebook_requests [OF ok] obtain account_id where
    "map fst (trace s') = map fst (trace s) @ requests_of_run lib account_id"
    unfolding s' by blast
  then have "map fst (new_events s s') = requests_of_run lib account_id"
    by (rule map_fst_new_events)
  then have "calls (new_events s s') = map call_summary (requests_of_run lib account_id)"
    by (simp add: calls_map)
  then show ?thesis unfolding calls_requests_of_run by blast
qed

theorem cross_region_call_sequence_witness:
  "fst (cross_region_notebook lib0 world_ok s0) = Inr ()
   \<and> map (\<lambda>c. (fst c, fst (snd c)))
       (calls (new_events s0 (snd (cross_region_notebook lib0 world_ok s0)))) =
     [(''bedrock'', ''list_foundation_models''),
      (''sts'', ''get_caller_identity''),
      (''bedrock'', ''list_inference_profiles''),
      (''bedrock'', ''get_inference_profile''),
      (''bedrock-runtime'', ''converse''),
      (''bedrock-runtime'', ''converse''),
      (''bedrock-runtime'', ''converse''),
      (''bedrock-runtime'', ''invoke_model''),
      (''bedrock-runtime'', ''invoke_model''),
      (''ChatBedrockConverse'', ''invoke''),
      (''ChatBedrock'', ''invoke''),
      (''ChatBedrock'', ''invoke''),
      (''ChatBedrock'', ''invoke''),
      (''iam'', ''create_role''),
      (''iam'', ''put_role_policy''),
      (''logs'', ''create_log_group''),
      (''logs'', ''put_retention_policy''),
      (''bedrock'', ''put_model_invocation_logging_configuration''),
      (''logs'', ''put_metric_filter'')]"
proof -
  let ?r = "cross_region_notebook lib0 world_ok s0"
  have run: "?r = (Inr (), snd ?r)"
    using notebook_ok [of lib0 s0] by (metis prod.collapse)
  from cross_region_call_sequence [OF run] show ?thesis
    by (auto simp: notebook_ok)
qed




text \<open>
  C6, as stated: after creating the persistent entities the code never sets or changes
  their lifecycle attributes. This fails for the log group: after \<open>create_log_group\<close> the code
  sets its retention to 365 days with \<open>put_retention_policy\<close>.
\<close>

theorem retention_set_after_creation_counterexample:
  "filter resource_write
     (map fst (new_events s0 (snd (cross_region_notebook lib0 world_ok s0)))) ! 2
     = Api logs_client ''create_log_group''
         [(''logGroupName'', PStr ''bedrock-model-invocation-logging'')]
   \<and> filter resource_write
       (map fst (new_events s0 (snd (cross_region_notebook lib0 world_ok s0)))) ! 3
     = Api logs_client ''put_retention_policy''
         [(''logGroupName'', PStr ''bedrock-model-invocation-logging''),
          (''retentionInDays'', PInt 365)]"
  by (simp add: notebook_ok_requests writes_requests_of_run create_log_group_kwargs_def
      put_retention_policy_kwargs_def log_group_name_def)

text \<open>
  C6, amended: the code sets attributes of the entities it creates, once each and right
  after creating them. In a run of the cross-region notebook that completes, the requests
  to IAM and to CloudWatch Logs are, in this order: create the role, put its inline policy,
  create the log group, put its retention policy (365 days), put the metric filter; the
  code makes no other request that changes them. In a run of the question-answering
  notebook that completes, the calls that are given the vector store are one call of
  \<open>PGVector.from_documents\<close>, with the chunks, and after it one call of the retrieval chain;
  the notebook has no other statement that reaches the store.
\<close>

theorem resources_written_once:
  "(cross_region_notebook lib w s = (Inr u, s') \<longrightarrow>
      (\<exists>account_id. filter resource_write (map fst (new_events s s')) =
         [Api iam_client ''create_role'' (create_role_kwargs lib account_id),
          Api iam_client ''put_role_policy'' (put_role_policy_kwargs lib account_id),
          Api logs_client ''create_log_group'' create_log_group_kwargs,
          Api logs_client ''put_retention_policy'' put_retention_policy_kwargs,
          Api logs_client ''put_metric_filter'' put_metric_filter_kwargs]))
   \<and> map_of put_retention_policy_kwargs ''retentionInDays'' = Some (PInt 365)
   \<and> (rag_notebook lib w s = (Inr (answer, sources), s'') \<longrightarrow>
      (\<exists>documents chain. filter store_call (map fst (new_events s s'')) =
         [FromDocuments bedrock_embeddings (split_documents lib 1000 0 documents)
            ''tbl_store_embedding'' (pg_connection lib),
          CallChain chain query]
         \<and> collection_name (r_store (qa_retriever chain)) = ''tbl_store_embedding''
         \<and> connection_string (r_store (qa_retriever chain)) = pg_connection lib))"
proof -
  have "\<exists>account_id. filter resource_write (map fst (new_events s s')) =
         [Api iam_client ''create_role'' (create_role_kwargs lib account_id),
          Api iam_client ''put_role_policy'' (put_role_policy_kwargs lib account_id),
          Api logs_client ''create_log_group'' create_log_group_kwargs,
          Api logs_client ''put_retention_policy'' put_retention_policy_kwargs,
          Api logs_client ''put_metric_filter'' put_metric_filter_kwargs]"
    if run: "cross_region_notebook lib w s = (Inr u, s')"
  proof -
    from run have ok: "fst (cross_region_notebook lib w s) = Inr u"
      and s': "s' = snd (cross_region_notebook lib w s)"
      by simp_all
    from notebook_requests [OF ok] obtain account_id where
      "map fst (trace s') = map fst (trace s) @ requests_of_run lib account_id"
      unfolding s' by blast
    then have "map fst (new_events s s') = requests_of_run lib account_id"
      by (rule map_fst_new_events)
    then have "filter resource_write (map fst (new_events s s')) =
         [Api iam_client ''create_role'' (create_role_kwargs lib account_id),
          Api iam_client ''put_role_policy'' (put_role_policy_kwargs lib account_id),
          Api logs_client ''create_log_group'' create_log_group_kwargs,
          Api logs_client ''put_retention_policy'' put_retention_policy_kwargs,
          Api logs_client ''put_metric_filter'' put_metric_filter_kwargs]"
      by (simp only: writes_requests_of_run)
    then show ?thesis by blast
  qed
  moreover have "map_of put_retention_policy_kwargs ''retentionInDays'' = Some (PInt 365)"
    by (simp add: put_retention_policy_kwargs_def)
  moreover have "\<exists>documents chain. filter store_call (map fst (new_events s s'')) =
         [FromDocuments bedrock_embeddings (split_documents lib 1000 0 documents)
            ''tbl_store_embedding'' (pg_connection lib),
          CallChain chain query]
         \<and> collection_name (r_store (qa_retriever chain)) = ''tbl_store_embedding''
         \<and> connection_string (r_store (qa_retriever chain)) = pg_connection lib"
    if run: "rag_notebook lib w s = (Inr (answer, sources), s'')"
  proof -
    from run have "fst (rag_notebook lib w s) = Inr (answer, sources)"
      and "s'' = snd (rag_notebook lib w s)"
      by simp_all
    with rag_run_shape [of lib w s answer sources] obtain documents where
      "new_events s s'' =
        [(LoadDirectory ''./data/'', Inr (Documents documents)),
         (FromDocuments bedrock_embeddings (split_documents lib 1000 0 documents)
            ''tbl_store_embedding'' (pg_connection lib), Inr Done),
         (CallChain (qa (pg_store lib)) query, Inr (Answer answer))]"
      by blast
    then have "filter store_call (map fst (new_events s s'')) =
         [FromDocuments bedrock_embeddings (split_documents lib 1000 0 documents)
            ''tbl_store_embedding'' (pg_connection lib),
          CallChain (qa (pg_store lib)) query]
         \<and> collection_name (r_store (qa_retriever (qa (pg_store lib)))) = ''tbl_store_embedding''
         \<and> connection_string (r_store (qa_retriever (qa (pg_store lib)))) = pg_connection lib"
      by (simp add: qa_def pg_store_def)
    then show ?thesis by blast
  qed
  ultimately show ?thesis by blast
qed

theorem resources_written_once_witness:
  "fst (cross_region_notebook lib0 world_ok s0) = Inr ()
   \<and> length (filter resource_write
        (map fst (new_events s0 (snd (cross_region_notebook lib0 world_ok s0))))) = 5
   \<and> fst (rag_notebook lib0 world_ok s0) = Inr (answer0, [chunk ''a'', chunk ''b'', chunk ''c''])
   \<and> length (filter store_call
        (map fst (new_events s0 (snd (rag_notebook lib0 world_ok s0))))) = 2"
proof -
  let ?r = "cross_region_notebook lib0 world_ok s0"
  let ?q = "rag_notebook lib0 world_ok s0"
  have run: "?r = (Inr (), snd ?r)"
    using notebook_ok [of lib0 s0] by (metis prod.collapse)
  have rag: "?q = (Inr (answer0, [chunk ''a'', chunk ''b'', chunk ''c'']), snd ?q)"
    using rag_ok [of lib0 s0] by (metis prod.collapse)
  from resources_written_once
    [of lib0 world_ok s0 "()" "snd ?r" answer0 "[chunk ''a'', chunk ''b'', chunk ''c'']" "snd ?q"]
    run rag
  obtain account_id documents chain where
    a: "filter resource_write (map fst (new_events s0 (snd ?r))) =
         [Api iam_client ''create_role'' (create_role_kwargs lib0 account_id),
          Api iam_client ''put_role_policy'' (put_role_policy_kwargs lib0 account_id),
          Api logs_client ''create_log_group'' create_log_group_kwargs,
          Api logs_client ''put_retention_policy'' put_retention_policy_kwargs,
          Api logs_client ''put_metric_filter'' put_metric_filter_kwargs]"
    and b: "filter store_call (map fst (new_events s0 (snd ?q))) =
         [FromDocuments bedrock_embeddings (split_documents lib0 1000 0 documents)
            ''tbl_store_embedding'' (pg_connection lib0),
          CallChain chain query]"
    by blast
  show ?thesis unfolding a b by (simp add: notebook_ok rag_ok)
qed

text \<open>
  C7, as stated: every output depends on live external service responses, so no function of
  the source computes its result from its inputs alone. This fails for
  \<open>get_bedrock_client\<close> as cell 7 calls it: in two worlds whose services answer differently
  it returns the same client and leaves the same state.
\<close>

theorem deterministic_function_counterexample:
  "get_bedrock_client lib0 world_ok None (Some ''us-east-1'') (Some True)
       (Some ''bedrock-runtime'') (s0\<lparr>environ := [''AWS_PROFILE'' \<mapsto> ''profile_acct_4'']\<rparr>)
     = get_bedrock_client lib0 world_exists None (Some ''us-east-1'') (Some True)
         (Some ''bedrock-runtime'') (s0\<lparr>environ := [''AWS_PROFILE'' \<mapsto> ''profile_acct_4'']\<rparr>)
   \<and> fst (get_bedrock_client lib0 world_ok None (Some ''us-east-1'') (Some True)
            (Some ''bedrock-runtime'') (s0\<lparr>environ := [''AWS_PROFILE'' \<mapsto> ''profile_acct_4'']\<rparr>))
       = Inr (notebook_client ''bedrock-runtime'')
   \<and> respond world_ok 0 iam_client ''create_role'' []
       \<noteq> respond world_exists 0 iam_client ''create_role'' []"
proof -
  have "get_bedrock_client lib0 world_ok None (Some ''us-east-1'') (Some True)
          (Some ''bedrock-runtime'')
        = get_bedrock_client lib0 world_exists None (Some ''us-east-1'') (Some True)
            (Some ''bedrock-runtime'')"
    by (rule gbc_cong) (simp_all add: world_exists_def)
  then show ?thesis
    by (simp add: fst_gbc_notebook resolve_service_def world_simps)
qed

text \<open>
  C7, amended: the text that the models generate depends on the external services, but the
  source has logic whose result no service response enters. When no role is to be assumed
  (as in every call that the notebooks make), \<open>get_bedrock_client\<close> sends no request; its
  outcome and the state it leaves are the same in any two worlds in which \<open>boto3.Session\<close>
  and \<open>session.client\<close> behave alike, whatever the services answer. The outcome is a function
  of the arguments, of the environment variables and of the local installation and
  configuration: the function raises what building the session or the client raises
  (\<open>ProfileNotFound\<close> or \<open>NoRegionError\<close>, for example), and otherwise returns the client with the
  resolved service and region, the profile of \<open>AWS_PROFILE\<close> when that is set, and the retry
  configuration.
\<close>

theorem get_bedrock_client_deterministic:
  assumes "\<not> truthy assumed_role"
    and "build_session w = build_session w'"
    and "build_client w = build_client w'"
  shows "get_bedrock_client lib w assumed_role region runtime service_name s
       = get_bedrock_client lib w' assumed_role region runtime service_name s
     \<and> trace (snd (get_bedrock_client lib w assumed_role region runtime service_name s))
         = trace s
     \<and> fst (get_bedrock_client lib w assumed_role region runtime service_name s) =
         (case builds w
                 \<lparr>c_session = \<lparr>ses_kwargs =
              (if truthy (environ s ''AWS_PROFILE'')
               then [(''region_name'', opt_str (resolve_region (environ s) region)),
                     (''profile_name'', opt_str (environ s ''AWS_PROFILE''))]
               else [(''region_name'', opt_str (resolve_region (environ s) region))])\<rparr>,
            c_service = resolve_service runtime service_name,
            c_config = Some \<lparr>cfg_region_name = resolve_region (environ s) region,
                             cfg_retries = Some \<lparr>max_attempts = 10, mode = ''standard''\<rparr>\<rparr>,
            c_kwargs = [(''region_name'', opt_str (resolve_region (environ s) region))]\<rparr> of
            Some e \<Rightarrow> Inl e
          | None \<Rightarrow>
              Inr \<lparr>c_session = \<lparr>ses_kwargs =
                (if truthy (environ s ''AWS_PROFILE'')
                 then [(''region_name'', opt_str (resolve_region (environ s) region)),
                       (''profile_name'', opt_str (environ s ''AWS_PROFILE''))]
                 else [(''region_name'', opt_str (resolve_region (environ s) region))])\<rparr>,
              c_service = resolve_service runtime service_name,
              c_config = Some \<lparr>cfg_region_name = resolve_region (environ s) region,
                               cfg_retries = Some \<lparr>max_attempts = 10, mode = ''standard''\<rparr>\<rparr>,
              c_kwargs = [(''region_name'', opt_str (resolve_region (environ s) region))]\<rparr>)"
proof (intro conjI)
  have "get_bedrock_client lib w assumed_role region runtime service_name
      = get_bedrock_client lib w' assumed_role region runtime service_name"
    using assms by (rule gbc_cong)
  then show "get_bedrock_client lib w assumed_role region runtime service_name s
       = get_bedrock_client lib w' assumed_role region runtime service_name s"
    by (simp only:)
  show "trace (snd (get_bedrock_client lib w assumed_role region runtime service_name s))
         = trace s"
    by (rule keepsD) (rule keeps_gbc_trace [OF assms(1)])
qed (rule fst_gbc_plain_eq [OF assms(1)])

theorem get_bedrock_client_deterministic_witness:
  "\<not> truthy None
   \<and> build_session world_ok = build_session world_exists
   \<and> build_client world_ok = build_client world_exists
   \<and> get_bedrock_client lib0 world_ok None (Some ''us-east-1'') (Some False) None s0
       = get_bedrock_client lib0 world_exists None (Some ''us-east-1'') (Some False) None s0
   \<and> fst (get_bedrock_client lib0 world_ok None (Some ''us-east-1'') (Some False) None s0)
       = Inr client_us"
proof -
  have h: "\<not> truthy None" by simp
  have b: "build_session world_ok = build_session world_exists"
    "build_client world_ok = build_client world_exists"
    by (simp_all add: world_exists_def)
  note t = get_bedrock_client_deterministic
    [OF h b, of lib0 "Some ''us-east-1''" "Some False" None s0]
  show ?thesis
  proof (intro conjI)
    show "\<not> truthy None" by (rule h)
    show "build_session world_ok = build_session world_exists" by (rule b)
    show "build_client world_ok = build_client world_exists" by (rule b)
    show "get_bedrock_client lib0 world_ok None (Some ''us-east-1'') (Some False) None s0
       = get_bedrock_client lib0 world_exists None (Some ''us-east-1'') (Some False) None s0"
      by (rule conjunct1 [OF t])
    show "fst (get_bedrock_client lib0 world_ok None (Some ''us-east-1'') (Some False) None s0)
       = Inr client_us"
      unfolding conjunct2 [OF conjunct2 [OF t]]
      by (simp add: installed s0_def client_us_def resolve_region_def resolve_service_def)
  qed
qed

text \<open>
  C8. For every call of \<open>get_bedrock_client\<close> with \<open>service_name\<close> unset that returns a
  client, the client targets the service \<open>bedrock-runtime\<close> exactly when the \<open>runtime\<close> flag
  is true and \<open>bedrock\<close> otherwise; its region is the \<open>region\<close> argument when one is given,
  and otherwise the value of the environment variable \<open>AWS_REGION\<close>, or that of
  \<open>AWS_DEFAULT_REGION\<close> when \<open>AWS_REGION\<close> is not set.
\<close>

theorem get_bedrock_client_service_and_region:
  assumes "get_bedrock_client lib w assumed_role region runtime None s = (Inr c, s')"
  shows "c_service c = (if runtime = Some True then ''bedrock-runtime'' else ''bedrock'')
       \<and> client_region c =
           Some (opt_str (case region of
                            Some r \<Rightarrow> Some r
                          | None \<Rightarrow> (case environ s ''AWS_REGION'' of
                                       Some r \<Rightarrow> Some r
                                     | None \<Rightarrow> environ s ''AWS_DEFAULT_REGION'')))
       \<and> config_region c =
           (case region of
              Some r \<Rightarrow> Some r
            | None \<Rightarrow> (case environ s ''AWS_REGION'' of
                         Some r \<Rightarrow> Some r
                       | None \<Rightarrow> environ s ''AWS_DEFAULT_REGION''))"
proof -
  from assms have ok: "fst (get_bedrock_client lib w assumed_role region runtime None s) = Inr c"
    by simp
  have r: "resolve_region (environ s) region =
      (case region of Some r \<Rightarrow> Some r
       | None \<Rightarrow> (case environ s ''AWS_REGION'' of Some r \<Rightarrow> Some r
                  | None \<Rightarrow> environ s ''AWS_DEFAULT_REGION''))"
    by (cases region) (simp_all add: resolve_region_def)
  show ?thesis
    using fst_gbc [OF ok]
    by (simp add: resolve_service_def client_region_def config_region_def r)
qed

theorem get_bedrock_client_service_and_region_witness:
  "fst (get_bedrock_client lib0 world_ok None None (Some False) None
          (s0\<lparr>environ := [''AWS_DEFAULT_REGION'' \<mapsto> ''eu-west-1'']\<rparr>)) = Inr client_eu
   \<and> c_service client_eu = ''bedrock''
   \<and> client_region client_eu = Some (PStr ''eu-west-1'')
   \<and> config_region client_eu = Some ''eu-west-1''"
proof -
  let ?s = "s0\<lparr>environ := [''AWS_DEFAULT_REGION'' \<mapsto> ''eu-west-1'']\<rparr>"
  have run: "fst (get_bedrock_client lib0 world_ok None None (Some False) None ?s) = Inr client_eu"
    by (simp add: fst_gbc_plain_eq installed resolve_region_def resolve_service_def s0_def
        client_eu_def)
  then have "get_bedrock_client lib0 world_ok None None (Some False) None ?s
      = (Inr client_eu, snd (get_bedrock_client lib0 world_ok None None (Some False) None ?s))"
    by (metis prod.collapse)
  from get_bedrock_client_service_and_region [OF this] run
  show ?thesis by (simp add: s0_def)
qed

text \<open>
  C10. Every call of \<open>print_ww\<close> leaves \<open>sys.stdout\<close> as it was on entry, whether the call
  returns or an exception leaves it (from the wrapped print or from the wrapping).
\<close>

theorem print_ww_restores_stdout:
  "sys_stdout (snd (print_ww lib args width kwargs s)) = sys_stdout s"
  by (rule print_ww_stdout)

theorem print_ww_restores_stdout_witness:
  "fst (print_ww lib0 [Inr ''wrapped'', Inl ValueError] 100 no_kwargs s0) = Inl ValueError
   \<and> sys_stdout s0 = Std 1
   \<and> sys_stdout (snd (print_ww lib0 [Inr ''wrapped'', Inl ValueError] 100 no_kwargs s0)) = Std 1"
proof -
  have "fst (print_ww lib0 [Inr ''wrapped'', Inl ValueError] 100 no_kwargs s0) = Inl ValueError"
    by (simp add: print_ww_def py_bind_def py_seq_def new_StringIO_def get_stdout_def
        set_stdout_def try_finally_def py_print_def no_kwargs_def ret_def lift_def write_to_def
        getvalue_def s0_def)
  moreover have "sys_stdout s0 = Std 1" by (simp add: s0_def)
  ultimately show ?thesis
    using print_ww_restores_stdout [of lib0 "[Inr ''wrapped'', Inl ValueError]" 100 no_kwargs s0]
    by simp
qed

end
